theory Spec2Isabelle
  imports Main "HOL-Library.Word"
begin

section \<open>Common Go values\<close>

text \<open>
  Go errors are values. \<open>NotFound\<close> is \<open>ethereum.NotFound\<close>, \<open>Canceled\<close> and
  \<open>DeadlineExceeded\<close> are what \<open>ctx.Err()\<close> returns, \<open>StatusMismatch expected got\<close> is
  the error built by \<open>fmt.Errorf("expected status %d, but got %d", ...)\<close>, \<open>Errorf\<close>
  is any other error and \<open>Wrapped\<close> an error that wraps another one (\<open>%w\<close>).
\<close>

datatype error =
    NotFound
  | Canceled
  | DeadlineExceeded
  | StatusMismatch "64 word" "64 word"
  | Errorf string
  | Wrapped string error

text \<open>\<open>errors.Is(err, target)\<close>: walks the chain of wrapped errors; a nil error is no match.\<close>

fun errors_Is_chain :: "error \<Rightarrow> error \<Rightarrow> bool" where
  "errors_Is_chain (Wrapped m e) target = (Wrapped m e = target \<or> errors_Is_chain e target)"
| "errors_Is_chain e target = (e = target)"

definition errors_Is :: "error option \<Rightarrow> error \<Rightarrow> bool" where
  "errors_Is err target = (case err of None \<Rightarrow> False | Some e \<Rightarrow> errors_Is_chain e target)"

text \<open>
  How a call ends: it returns a value, it fails the test through \<open>t.Fatal\<close>,
  \<open>t.Fatalf\<close> or \<open>t.FailNow\<close> (which end the goroutine), or it panics.
\<close>

datatype 'a outcome = Return 'a | Fatal string | Panic string

type_synonym address = "160 word"
type_synonym privkey = nat
type_synonym signature = nat

record Receipt =
  Status :: "64 word"
  BlockNumber :: int

definition ReceiptStatusFailed :: "64 word" where
  "ReceiptStatusFailed = 0"

definition ReceiptStatusSuccessful :: "64 word" where
  "ReceiptStatusSuccessful = 1"

section \<open>Vault\<close>

record Vault =
  chainID :: int
  nonce :: "64 word"
  accounts :: "address \<rightharpoonup> privkey"

definition NewVault :: "int \<Rightarrow> Vault" where
  "NewVault cid = \<lparr>chainID = cid, nonce = 0, accounts = Map.empty\<rparr>"

text \<open>The dynamic-fee transaction that \<open>makeFundingTx\<close> builds, and its signed form.\<close>

record DynamicFeeTx =
  Nonce :: "64 word"
  Gas :: "64 word"
  GasTipCap :: int
  GasFeeCap :: int
  To :: address
  Value :: int

record SignedTx =
  inner :: DynamicFeeTx
  sig :: signature

text \<open>
  What the vault uses from outside the repository: address derivation, the signer
  (\<open>types.SignTx\<close> with the signer of a chain id, which may fail), and the package
  variable \<open>gasPrice\<close>, which is declared in a file that is not part of the sources.
\<close>

record externals =
  PubkeyToAddress :: "privkey \<Rightarrow> address"
  SignTx :: "int \<Rightarrow> DynamicFeeTx \<Rightarrow> privkey \<Rightarrow> error + signature"
  gasPrice :: int

definition vaultKey :: privkey where
  "vaultKey = 0xac0974bec39a17e36ba4a6b4d238ff944bacb478cbed5efcae784d7bf4f2ff80"

definition GWei :: int where
  "GWei = 1000000000"

text \<open>\<open>GenerateKey\<close>: the argument is what \<open>crypto.GenerateKey()\<close> returned.\<close>

definition GenerateKey :: "externals \<Rightarrow> error + privkey \<Rightarrow> Vault \<Rightarrow> address outcome \<times> Vault" where
  "GenerateKey ext generated v =
     (case generated of
        Inl err \<Rightarrow> (Panic ''can'T generate account key'', v)
      | Inr key \<Rightarrow>
          (let addr = PubkeyToAddress ext key
           in (Return addr, v\<lparr>accounts := (accounts v)(addr \<mapsto> key)\<rparr>)))"

definition FindKey :: "Vault \<Rightarrow> address \<Rightarrow> privkey option" where
  "FindKey v addr = accounts v addr"

definition InsertKey :: "externals \<Rightarrow> privkey \<Rightarrow> Vault \<Rightarrow> Vault" where
  "InsertKey ext key v = v\<lparr>accounts := (accounts v)(PubkeyToAddress ext key \<mapsto> key)\<rparr>"

text \<open>\<open>nextNonce\<close>: under the mutex, returns the counter and increments it (a \<open>uint64\<close>).\<close>

definition nextNonce :: "Vault \<Rightarrow> 64 word \<times> Vault" where
  "nextNonce v = (nonce v, v\<lparr>nonce := nonce v + 1\<rparr>)"

definition makeFundingTx ::
  "externals \<Rightarrow> Vault \<Rightarrow> address \<Rightarrow> int \<Rightarrow> SignedTx outcome \<times> Vault" where
  "makeFundingTx ext v recipient amount =
     (case nextNonce v of
        (n, v') \<Rightarrow>
          (let gasLimit = 75000;
               tx = \<lparr>Nonce = n, Gas = gasLimit, GasTipCap = 1 * GWei,
                     GasFeeCap = gasPrice ext, To = recipient, Value = amount\<rparr>
           in case SignTx ext (chainID v') tx vaultKey of
                Inl err \<Rightarrow> (Fatal ''can'T sign vault funding tx:'', v')
              | Inr sg \<Rightarrow> (Return \<lparr>inner = tx, sig = sg\<rparr>, v')))"



text \<open>
  What one \<open>CreateAccount\<close> call sees of the world: the result of \<open>crypto.GenerateKey()\<close>,
  the answer of \<open>client.SendTransaction\<close>, and the answer of the \<open>i\<close>-th
  \<open>client.TransactionReceipt\<close> query (receipt and error, either may be nil).
\<close>

record account_env =
  generated :: "error + privkey"
  SendTransaction :: "SignedTx \<Rightarrow> error option"
  TransactionReceipt :: "nat \<Rightarrow> Receipt option \<times> error option"

text \<open>What the call does to the world, in order; \<open>EvSleep\<close> carries milliseconds.\<close>

datatype vault_event =
    EvSendTransaction SignedTx
  | EvTransactionReceipt nat
  | EvSleep nat

text \<open>The loop \<open>for i := 0; i < 60; i++\<close> of \<open>CreateAccount\<close>, from iteration \<open>i\<close>.\<close>

function CreateAccount_poll ::
  "(nat \<Rightarrow> Receipt option \<times> error option) \<Rightarrow> address \<Rightarrow> nat \<Rightarrow> address outcome \<times> vault_event list" where
  "CreateAccount_poll rpc addr i =
     (if i < 60 then
        (case rpc i of
           (receipt, err) \<Rightarrow>
             if err \<noteq> None \<and> \<not> errors_Is err NotFound
             then (Fatal ''error getting transaction receipt:'', [EvTransactionReceipt i])
             else if receipt \<noteq> None
             then (Return addr, [EvTransactionReceipt i])
             else (case CreateAccount_poll rpc addr (i + 1) of
                     (r, tr) \<Rightarrow> (r, EvTransactionReceipt i # EvSleep 1000 # tr)))
      else (Fatal ''timed out getting transaction receipt'', []))"
  by pat_completeness auto
termination
  by (relation "measure (\<lambda>(rpc, addr, i). 60 - i)") auto

declare CreateAccount_poll.simps [simp del]

definition CreateAccount ::
  "externals \<Rightarrow> account_env \<Rightarrow> Vault \<Rightarrow> int option \<Rightarrow> address outcome \<times> Vault \<times> vault_event list" where
  "CreateAccount ext env v amount =
     (let amount' = (case amount of None \<Rightarrow> 0 | Some a \<Rightarrow> a)
      in case GenerateKey ext (generated env) v of
           (Return address, v1) \<Rightarrow>
             (case makeFundingTx ext v1 address amount' of
                (Return tx, v2) \<Rightarrow>
                  (case SendTransaction env tx of
                     Some err \<Rightarrow>
                       (Fatal ''unable to send funding transaction'', v2, [EvSendTransaction tx])
                   | None \<Rightarrow>
                       (case CreateAccount_poll (TransactionReceipt env) address 0 of
                          (r, tr) \<Rightarrow> (r, v2, EvSendTransaction tx # tr)))
              | (Fatal m, v2) \<Rightarrow> (Fatal m, v2, [])
              | (Panic m, v2) \<Rightarrow> (Panic m, v2, []))
         | (Fatal m, v1) \<Rightarrow> (Fatal m, v1, [])
         | (Panic m, v1) \<Rightarrow> (Panic m, v1, []))"

subsection \<open>Auxiliary notions for the vault theorems\<close>



fun is_query :: "vault_event \<Rightarrow> bool" where
  "is_query (EvTransactionReceipt i) = True"
| "is_query _ = False"

definition pending :: "Receipt option \<times> error option \<Rightarrow> bool" where
  "pending p = (fst p = None \<and> (snd p = None \<or> errors_Is (snd p) NotFound))"

definition example_externals :: externals where
  "example_externals = \<lparr>PubkeyToAddress = of_nat, SignTx = (\<lambda>cid tx key. Inr 0), gasPrice = 1\<rparr>"

definition example_account_env :: "nat \<Rightarrow> account_env" where
  "example_account_env n =
     \<lparr>generated = Inr 7, SendTransaction = (\<lambda>tx. None),
      TransactionReceipt = (\<lambda>i. if i < n then (None, Some NotFound)
                                 else (Some \<lparr>Status = 1, BlockNumber = 5\<rparr>, None))\<rparr>"

section \<open>Wait primitives\<close>

subsection \<open>WaitReceipt\<close>

text \<open>
  What the \<open>select\<close> of \<open>WaitReceipt\<close> takes after a "not found": the context is done
  (with the value of \<open>ctx.Err()\<close>), or the ticker fires.
\<close>

datatype select_result = CtxDone error | Tick

text \<open>
  \<open>WaitReceipt\<close> (the same text in helper.go and in the second part of devnet.go), from
  its \<open>i\<close>-th iteration. \<open>rpc i\<close> is what the \<open>i\<close>-th \<open>client.TransactionReceipt\<close>
  query returns and \<open>sel i\<close> what the \<open>select\<close> of that iteration takes. The loop has no
  bound: a call that never returns has the value \<open>None\<close>. The result carries the number
  of queries made.
\<close>

partial_function (option) WaitReceipt_from ::
  "(nat \<Rightarrow> Receipt option \<times> error option) \<Rightarrow> (nat \<Rightarrow> select_result) \<Rightarrow> 64 word \<Rightarrow> nat
     \<Rightarrow> ((Receipt option \<times> error option) outcome \<times> nat) option" where
  "WaitReceipt_from rpc sel status i =
     (case rpc i of
        (receipt, err) \<Rightarrow>
          if errors_Is err NotFound then
            (case sel i of
               CtxDone ctxErr \<Rightarrow> Some (Return (None, Some ctxErr), i + 1)
             | Tick \<Rightarrow> WaitReceipt_from rpc sel status (i + 1))
          else if err \<noteq> None then Some (Return (None, err), i + 1)
          else (case receipt of
                  None \<Rightarrow> Some (Panic ''nil pointer dereference'', i + 1)
                | Some r \<Rightarrow>
                    if Status r \<noteq> status
                    then Some (Return (Some r, Some (StatusMismatch status (Status r))), i + 1)
                    else Some (Return (Some r, None), i + 1)))"

declare WaitReceipt_from.simps [code]

definition WaitReceipt ::
  "(nat \<Rightarrow> Receipt option \<times> error option) \<Rightarrow> (nat \<Rightarrow> select_result) \<Rightarrow> 64 word
     \<Rightarrow> ((Receipt option \<times> error option) outcome \<times> nat) option" where
  "WaitReceipt rpc sel status = WaitReceipt_from rpc sel status 0"

definition WaitReceiptOK ::
  "(nat \<Rightarrow> Receipt option \<times> error option) \<Rightarrow> (nat \<Rightarrow> select_result)
     \<Rightarrow> ((Receipt option \<times> error option) outcome \<times> nat) option" where
  "WaitReceiptOK rpc sel = WaitReceipt rpc sel ReceiptStatusSuccessful"

definition WaitReceiptFailed ::
  "(nat \<Rightarrow> Receipt option \<times> error option) \<Rightarrow> (nat \<Rightarrow> select_result)
     \<Rightarrow> ((Receipt option \<times> error option) outcome \<times> nat) option" where
  "WaitReceiptFailed rpc sel = WaitReceipt rpc sel ReceiptStatusFailed"

subsection \<open>WaitBlock\<close>

text \<open>
  \<open>WaitBlock\<close> of helper.go, from its \<open>i\<close>-th iteration, having slept \<open>slept\<close>
  milliseconds. \<open>rpc i\<close> is what the \<open>i\<close>-th \<open>client.BlockNumber\<close> query returns.
  \<open>require.NoError(t, err)\<close> reports the error and calls \<open>t.FailNow()\<close>, which ends
  the goroutine. The result carries the number of queries made and the time slept.
\<close>

partial_function (option) WaitBlock_from ::
  "(nat \<Rightarrow> 64 word \<times> error option) \<Rightarrow> 64 word \<Rightarrow> nat \<Rightarrow> nat
     \<Rightarrow> (error option outcome \<times> nat \<times> nat) option" where
  "WaitBlock_from rpc n i slept =
     (case rpc i of
        (height, err) \<Rightarrow>
          if err \<noteq> None then Some (Fatal ''Received unexpected error'', i + 1, slept)
          else if height < n then WaitBlock_from rpc n (i + 1) (slept + 500)
          else Some (Return None, i + 1, slept))"

declare WaitBlock_from.simps [code]

definition WaitBlock ::
  "(nat \<Rightarrow> 64 word \<times> error option) \<Rightarrow> 64 word \<Rightarrow> (error option outcome \<times> nat \<times> nat) option" where
  "WaitBlock rpc n = WaitBlock_from rpc n 0 0"

text \<open>\<open>WaitBlock\<close> as the second part of devnet.go has it: the error is returned.\<close>

partial_function (option) WaitBlock_devnet_from ::
  "(nat \<Rightarrow> 64 word \<times> error option) \<Rightarrow> 64 word \<Rightarrow> nat \<Rightarrow> nat
     \<Rightarrow> (error option outcome \<times> nat \<times> nat) option" where
  "WaitBlock_devnet_from rpc n i slept =
     (case rpc i of
        (height, err) \<Rightarrow>
          if err \<noteq> None then Some (Return err, i + 1, slept)
          else if height < n then WaitBlock_devnet_from rpc n (i + 1) (slept + 500)
          else Some (Return None, i + 1, slept))"

declare WaitBlock_devnet_from.simps [code]

definition WaitBlock_devnet ::
  "(nat \<Rightarrow> 64 word \<times> error option) \<Rightarrow> 64 word \<Rightarrow> (error option outcome \<times> nat \<times> nat) option" where
  "WaitBlock_devnet rpc n = WaitBlock_devnet_from rpc n 0 0"

subsection \<open>WaitProveEvent\<close>





subsection \<open>Auxiliary notions for the wait theorems\<close>

text \<open>The iteration of \<open>WaitReceipt\<close> goes round again: "not found", and the ticker fires.\<close>

definition retried ::
  "(nat \<Rightarrow> Receipt option \<times> error option) \<Rightarrow> (nat \<Rightarrow> select_result) \<Rightarrow> nat \<Rightarrow> bool" where
  "retried rpc sel j = (errors_Is (snd (rpc j)) NotFound \<and> sel j = Tick)"

text \<open>The iteration of \<open>WaitBlock\<close> goes round again: no error, and a height below the target.\<close>

definition below ::
  "(nat \<Rightarrow> 64 word \<times> error option) \<Rightarrow> 64 word \<Rightarrow> nat \<Rightarrow> bool" where
  "below rpc n j = (snd (rpc j) = None \<and> fst (rpc j) < n)"

text \<open>Sample environments.\<close>

definition receipt_after :: "nat \<Rightarrow> 64 word \<Rightarrow> nat \<Rightarrow> Receipt option \<times> error option" where
  "receipt_after k st i =
     (if i < k then (None, Some NotFound) else (Some \<lparr>Status = st, BlockNumber = 1\<rparr>, None))"

definition always_tick :: "nat \<Rightarrow> select_result" where
  "always_tick i = Tick"

definition cancelled_at :: "nat \<Rightarrow> nat \<Rightarrow> select_result" where
  "cancelled_at k i = (if i < k then Tick else CtxDone Canceled)"

definition rpc_error_after :: "nat \<Rightarrow> nat \<Rightarrow> Receipt option \<times> error option" where
  "rpc_error_after k i =
     (if i < k then (None, Some NotFound) else (None, Some (Errorf ''connection refused'')))"

definition height_grows :: "nat \<Rightarrow> 64 word \<times> error option" where
  "height_grows i = (of_nat i, None)"

definition height_fails_after :: "nat \<Rightarrow> nat \<Rightarrow> 64 word \<times> error option" where
  "height_fails_after k i =
     (if i < k then (of_nat i, None) else (0, Some (Errorf ''connection refused'')))"

section \<open>Devnet\<close>

text \<open>
  Nodes are \<open>hivesim.Client\<close> values; an engine node carries the rollup address too.
  Driver, proposer, prover and contract nodes are structs around the client alone.
\<close>

record Client =
  Type :: string
  Container :: string
  IP :: string

record ELNode =
  client :: Client
  RollupAddress :: address

record ClientDefinition =
  Name :: string

record ClientsByRole =
  L1 :: "ClientDefinition list"
  L2 :: "ClientDefinition list"
  Driver :: "ClientDefinition list"
  Proposer :: "ClientDefinition list"
  Prover :: "ClientDefinition list"
  Contract :: "ClientDefinition option"

text \<open>
  The configuration type is declared outside the sources; these are the fields that the
  functions below read (\<open>d.c.L1.ChainID\<close> is \<open>L1_ChainID\<close>, and so on).
\<close>

record Account =
  PrivateKeyHex :: string
  PrivateKey :: privkey
  Address :: address

record Config =
  L1_ChainID :: int
  L1_MineInterval :: "64 word"
  L1_RollupAddress :: address
  L1_Deployer :: Account
  L2_ChainID :: int
  L2_RollupAddress :: address
  L2_GenesisBlockHash :: "256 word"
  L2_Prover :: Account

text \<open>
  A start option is a \<open>hivesim.Params\<close> map. The value keeps what the source renders
  as a string (\<open>String()\<close>, \<open>Hex()\<close>, \<open>FormatUint\<close>, an endpoint of a node); the
  keys are the names of the constants, whose values are declared outside the sources.
\<close>

datatype param_value =
    PStr string
  | PInt int
  | PUint64 "64 word"
  | PAddress address
  | PHash "256 word"
  | PHttpRpcEndpoint Client
  | PWsRpcEndpoint Client

type_synonym Params = "(string \<times> param_value) list"

record Devnet =
  c :: Config
  clients :: ClientsByRole
  l1Engines :: "ELNode list"
  l2Engines :: "ELNode list"
  drivers :: "Client list"
  proposers :: "Client list"
  provers :: "Client list"
  L1Vault :: Vault
  L2Vault :: Vault

record ExecInfo =
  ExitCode :: int

text \<open>
  The world outside the devnet: the hive simulator (\<open>StartClient\<close>, which fails the
  test when the client cannot be started, and \<open>Exec\<close>), the chain id query of an
  engine, the contract bindings and \<open>rpc.WaitReceipt\<close> of the taiko client library.
\<close>

record world =
  StartClient :: "string \<Rightarrow> Params list \<Rightarrow> error + Client"
  ChainID :: "Client \<Rightarrow> error option"
  Exec :: "Client \<Rightarrow> string \<Rightarrow> error + ExecInfo"
  NewTaikoL1Client :: "address \<Rightarrow> Client \<Rightarrow> error option"
  NewKeyedTransactorWithChainID :: "privkey \<Rightarrow> int \<Rightarrow> error option"
  WhitelistProver :: "address \<Rightarrow> bool \<Rightarrow> error + nat"
  rpc_WaitReceipt :: "nat \<Rightarrow> error + Receipt"

text \<open>What a devnet operation does to the world and to the devnet, in order.\<close>

datatype devnet_event =
    EvStartClient string "Params list"
  | EvChainID Client
  | EvExec Client string
  | EvWhitelistProver address bool
  | EvWaitReceipt nat
  | EvLog string
  | EvLogf string Client
  | EvAppendL1Engine ELNode
  | EvAppendProver Client

text \<open>\<open>WaitELNodesUp\<close> of helper.go: one chain id query under a timeout.\<close>

definition WaitELNodesUp :: "world \<Rightarrow> ELNode \<Rightarrow> unit outcome \<times> devnet_event list" where
  "WaitELNodesUp w node =
     (case ChainID w (client node) of
        Some err \<Rightarrow> (Fatal ''engine node should be up'', [EvChainID (client node)])
      | None \<Rightarrow> (Return (), [EvChainID (client node)]))"

definition deployL1Contracts ::
  "world \<Rightarrow> Devnet \<Rightarrow> ELNode \<Rightarrow> unit outcome \<times> devnet_event list" where
  "deployL1Contracts w d l1Node =
     (case Contract (clients d) of
        None \<Rightarrow> (Fatal ''no taiko protocol client types found'', [])
      | Some contractDef \<Rightarrow>
          (let opts = [[(''envTaikoPrivateKey'', PStr (PrivateKeyHex (L1_Deployer (c d)))),
                        (''envTaikoL1DeployerAddress'', PAddress (Address (L1_Deployer (c d)))),
                        (''envTaikoL2GenesisBlockHash'', PHash (L2_GenesisBlockHash (c d))),
                        (''envTaikoL2RollupAddress'', PAddress (L2_RollupAddress (c d))),
                        (''envTaikoMainnetUrl'', PHttpRpcEndpoint (client l1Node)),
                        (''envTaikoL2ChainID'', PInt (L2_ChainID (c d))),
                        (''HIVE_CHECK_LIVE_PORT'', PStr ''0'')]]
           in case StartClient w (Name contractDef) opts of
                Inl err \<Rightarrow> (Fatal ''StartClient'', [EvStartClient (Name contractDef) opts])
              | Inr n \<Rightarrow>
                  (case Exec w n ''deploy.sh'' of
                     Inl err \<Rightarrow>
                       (Fatal ''failed to deploy contract on engine node'',
                        [EvStartClient (Name contractDef) opts, EvExec n ''deploy.sh''])
                   | Inr result \<Rightarrow>
                       if ExitCode result \<noteq> 0
                       then (Fatal ''failed to deploy contract on engine node'',
                             [EvStartClient (Name contractDef) opts, EvExec n ''deploy.sh''])
                       else (Return (),
                             [EvStartClient (Name contractDef) opts, EvExec n ''deploy.sh'',
                              EvLogf ''Deploy contracts on'' (client l1Node)]))))"

text \<open>
  \<open>AddL1ELNode\<close>. \<open>Idx\<close> is a \<open>uint\<close>; indexing \<open>d.clients.L1\<close> out of range panics.
  The devnet is returned as the call leaves it, with the events of the call.
\<close>

definition AddL1ELNode ::
  "world \<Rightarrow> Devnet \<Rightarrow> nat \<Rightarrow> Params list \<Rightarrow> ELNode outcome \<times> Devnet \<times> devnet_event list" where
  "AddL1ELNode w d Idx opts =
     (if length (L1 (clients d)) = 0 then (Fatal ''no eth1 client types found'', d, [])
      else
        (let opts' = opts @ [[(''envTaikoL1ChainID'', PInt (L1_ChainID (c d))),
                              (''envTaikoL1CliquePeriod'', PUint64 (L1_MineInterval (c d)))]]
         in if \<not> Idx < length (L1 (clients d))
            then (Panic ''index out of range'', d, [])
            else
              (let cl = L1 (clients d) ! Idx
               in case StartClient w (Name cl) opts' of
                    Inl err \<Rightarrow> (Fatal ''StartClient'', d, [EvStartClient (Name cl) opts'])
                  | Inr started \<Rightarrow>
                      (let n = \<lparr>client = started, RollupAddress = L1_RollupAddress (c d)\<rparr>
                       in case WaitELNodesUp w n of
                            (Return u, tr1) \<Rightarrow>
                              (case deployL1Contracts w d n of
                                 (Return u', tr2) \<Rightarrow>
                                   (Return n, d\<lparr>l1Engines := l1Engines d @ [n]\<rparr>,
                                    EvStartClient (Name cl) opts' # tr1 @ tr2 @ [EvAppendL1Engine n])
                               | (Fatal m, tr2) \<Rightarrow>
                                   (Fatal m, d, EvStartClient (Name cl) opts' # tr1 @ tr2)
                               | (Panic m, tr2) \<Rightarrow>
                                   (Panic m, d, EvStartClient (Name cl) opts' # tr1 @ tr2))
                          | (Fatal m, tr1) \<Rightarrow> (Fatal m, d, EvStartClient (Name cl) opts' # tr1)
                          | (Panic m, tr1) \<Rightarrow> (Panic m, d, EvStartClient (Name cl) opts' # tr1)))))"

definition GetL1ELNode :: "Devnet \<Rightarrow> int \<Rightarrow> ELNode outcome" where
  "GetL1ELNode d idx =
     (if idx < 0 \<or> idx \<ge> int (length (l1Engines d))
      then Fatal ''only have L1 nodes, cannot find''
      else Return (l1Engines d ! nat idx))"

text \<open>\<open>addWhitelist\<close>: the error it returns, or the fatal end of the test.\<close>

definition addWhitelist ::
  "world \<Rightarrow> Devnet \<Rightarrow> Client \<Rightarrow> error option outcome \<times> devnet_event list" where
  "addWhitelist w d cli =
     (case NewTaikoL1Client w (L1_RollupAddress (c d)) cli of
        Some err \<Rightarrow> (Return (Some err), [])
      | None \<Rightarrow>
          (case NewKeyedTransactorWithChainID w (PrivateKey (L1_Deployer (c d))) (L1_ChainID (c d)) of
             Some err \<Rightarrow> (Return (Some err), [])
           | None \<Rightarrow>
               (case WhitelistProver w (Address (L2_Prover (c d))) True of
                  Inl err \<Rightarrow>
                    (Return (Some err), [EvWhitelistProver (Address (L2_Prover (c d))) True])
                | Inr tx \<Rightarrow>
                    (case rpc_WaitReceipt w tx of
                       Inl err \<Rightarrow>
                         (Return (Some err),
                          [EvWhitelistProver (Address (L2_Prover (c d))) True, EvWaitReceipt tx])
                     | Inr receipt \<Rightarrow>
                         if Status receipt \<noteq> ReceiptStatusSuccessful
                         then (Fatal ''Failed to commit transactions list'',
                               [EvWhitelistProver (Address (L2_Prover (c d))) True, EvWaitReceipt tx])
                         else (Return None,
                               [EvWhitelistProver (Address (L2_Prover (c d))) True, EvWaitReceipt tx,
                                EvLog ''Add prover to whitelist finished''])))))"

definition AddProverNode ::
  "world \<Rightarrow> Devnet \<Rightarrow> ELNode \<Rightarrow> ELNode \<Rightarrow> Client outcome \<times> Devnet \<times> devnet_event list" where
  "AddProverNode w d l1 l2 =
     (if length (Prover (clients d)) = 0
      then (Fatal ''no taiko prover client types found'', d, [])
      else
        (case addWhitelist w d (client l1) of
           (Return (Some err), tr1) \<Rightarrow> (Fatal ''add whitelist failed'', d, tr1)
         | (Fatal m, tr1) \<Rightarrow> (Fatal m, d, tr1)
         | (Panic m, tr1) \<Rightarrow> (Panic m, d, tr1)
         | (Return None, tr1) \<Rightarrow>
             (let opts = [[(''envTaikoRole'', PStr ''taikoProver''),
                           (''envTaikoL1RPCEndpoint'', PWsRpcEndpoint (client l1)),
                           (''envTaikoL2RPCEndpoint'', PWsRpcEndpoint (client l2)),
                           (''envTaikoL1RollupAddress'', PAddress (L1_RollupAddress (c d))),
                           (''envTaikoL2RollupAddress'', PAddress (L2_RollupAddress (c d))),
                           (''envTaikoProverPrivateKey'', PStr (PrivateKeyHex (L2_Prover (c d)))),
                           (''HIVE_CHECK_LIVE_PORT'', PStr ''0'')]];
                  cl = Prover (clients d) ! 0
              in case StartClient w (Name cl) opts of
                   Inl err \<Rightarrow> (Fatal ''StartClient'', d, tr1 @ [EvStartClient (Name cl) opts])
                 | Inr n \<Rightarrow>
                     (Return n, d\<lparr>provers := provers d @ [n]\<rparr>,
                      tr1 @ [EvStartClient (Name cl) opts, EvAppendProver n]))))"

subsection \<open>Auxiliary notions for the devnet theorems\<close>

fun is_StartClient :: "devnet_event \<Rightarrow> bool" where
  "is_StartClient (EvStartClient name opts) = True"
| "is_StartClient _ = False"

fun is_deploy :: "devnet_event \<Rightarrow> bool" where
  "is_deploy (EvExec n cmd) = (cmd = ''deploy.sh'')"
| "is_deploy _ = False"

text \<open>The engines for which a history of events records a finished deployment.\<close>

fun deployed :: "devnet_event list \<Rightarrow> Client set" where
  "deployed [] = {}"
| "deployed (EvLogf msg cl # es) = (if msg = ''Deploy contracts on'' then insert cl (deployed es) else deployed es)"
| "deployed (e # es) = deployed es"

text \<open>A sample world, in which everything succeeds, and variations of it.\<close>

definition example_account :: Account where
  "example_account = \<lparr>PrivateKeyHex = ''2bdd21'', PrivateKey = 3, Address = 4\<rparr>"

definition example_config :: Config where
  "example_config =
     \<lparr>L1_ChainID = 1336, L1_MineInterval = 0, L1_RollupAddress = 10,
      L1_Deployer = example_account, L2_ChainID = 167, L2_RollupAddress = 11,
      L2_GenesisBlockHash = 12, L2_Prover = example_account\<rparr>"

definition example_devnet :: Devnet where
  "example_devnet =
     \<lparr>c = example_config,
      clients = \<lparr>L1 = [\<lparr>Name = ''taiko-l1''\<rparr>], L2 = [\<lparr>Name = ''taiko-geth''\<rparr>],
                 Driver = [\<lparr>Name = ''taiko-driver''\<rparr>], Proposer = [\<lparr>Name = ''taiko-proposer''\<rparr>],
                 Prover = [\<lparr>Name = ''taiko-prover''\<rparr>],
                 Contract = Some \<lparr>Name = ''taiko-protocol''\<rparr>\<rparr>,
      l1Engines = [], l2Engines = [], drivers = [], proposers = [], provers = [],
      L1Vault = NewVault 1336, L2Vault = NewVault 167\<rparr>"

definition example_world :: "int \<Rightarrow> 64 word \<Rightarrow> world" where
  "example_world code st =
     \<lparr>StartClient = (\<lambda>name opts. Inr \<lparr>Type = name, Container = ''c1'', IP = ''10.0.0.1''\<rparr>),
      ChainID = (\<lambda>cl. None),
      Exec = (\<lambda>cl cmd. Inr \<lparr>ExitCode = code\<rparr>),
      NewTaikoL1Client = (\<lambda>a cl. None),
      NewKeyedTransactorWithChainID = (\<lambda>k cid. None),
      WhitelistProver = (\<lambda>a b. Inr 77),
      rpc_WaitReceipt = (\<lambda>tx. Inr \<lparr>Status = st, BlockNumber = 2\<rparr>)\<rparr>"

definition example_l1 :: ELNode where
  "example_l1 = \<lparr>client = \<lparr>Type = ''taiko-l1'', Container = ''c1'', IP = ''10.0.0.1''\<rparr>,
                 RollupAddress = 10\<rparr>"

definition example_l2 :: ELNode where
  "example_l2 = \<lparr>client = \<lparr>Type = ''taiko-geth'', Container = ''c1'', IP = ''10.0.0.1''\<rparr>,
                 RollupAddress = 11\<rparr>"

section \<open>TestEnv\<close>

text \<open>
  Contexts are numbered in the order of their creation. The context world holds the
  number of the next context, the parent and timeout of every derived context, and the
  log of the calls of cancel functions, in order. A cancel function cancels the context
  it was created with.
\<close>

datatype CancelFunc = CancelFunc nat

record ctx_world =
  next_ctx :: nat
  derived :: "nat \<rightharpoonup> nat \<times> int"
  cancel_log :: "nat list"

definition WithTimeout :: "ctx_world \<Rightarrow> nat \<Rightarrow> int \<Rightarrow> (nat \<times> CancelFunc) \<times> ctx_world" where
  "WithTimeout cw parent timeout =
     ((next_ctx cw, CancelFunc (next_ctx cw)),
      cw\<lparr>next_ctx := next_ctx cw + 1,
         derived := (derived cw)(next_ctx cw \<mapsto> (parent, timeout))\<rparr>)"

fun call_cancel :: "CancelFunc \<Rightarrow> ctx_world \<Rightarrow> ctx_world" where
  "call_cancel (CancelFunc i) cw = cw\<lparr>cancel_log := cancel_log cw @ [i]\<rparr>"

record TestEnv =
  Context :: nat
  Net :: "Devnet option"
  lastCtx :: "nat option"
  lastCancel :: "CancelFunc option"

text \<open>\<open>RPCTimeout\<close>: ten seconds, a \<open>time.Duration\<close> in nanoseconds.\<close>

definition RPCTimeout :: int where
  "RPCTimeout = 10 * 1000000000"

text \<open>
  \<open>TimeoutCtx\<close>: calling \<open>t.lastCancel\<close> when it is nil is a panic.
\<close>

definition TimeoutCtx ::
  "TestEnv \<Rightarrow> ctx_world \<Rightarrow> int \<Rightarrow> nat outcome \<times> TestEnv \<times> ctx_world" where
  "TimeoutCtx t cw timeout =
     (case (if lastCtx t \<noteq> None
            then (case lastCancel t of
                    None \<Rightarrow> Inl ''invalid memory address or nil pointer dereference''
                  | Some cancel \<Rightarrow> Inr (call_cancel cancel cw))
            else Inr cw) of
        Inl m \<Rightarrow> (Panic m, t, cw)
      | Inr cw1 \<Rightarrow>
          (case WithTimeout cw1 (Context t) timeout of
             ((ctx, cancel), cw2) \<Rightarrow>
               (Return ctx, t\<lparr>lastCtx := Some ctx, lastCancel := Some cancel\<rparr>, cw2)))"

definition Ctx :: "TestEnv \<Rightarrow> ctx_world \<Rightarrow> nat outcome \<times> TestEnv \<times> ctx_world" where
  "Ctx t cw = TimeoutCtx t cw RPCTimeout"

subsection \<open>Auxiliary notions for the TestEnv theorems\<close>




section \<open>Test scheduler\<close>

text \<open>
  \<open>RunTests\<close> starts one goroutine per test and waits for them. The goroutines run
  interleaved, so the scheduler is a transition system. A state holds the weighted
  semaphore (its \<open>size\<close>, and \<open>cur\<close>, the permits held), where every task stands, the
  counter \<open>done\<close> of the waiting loop (\<open>done_count\<close>), whether the context is cancelled and whether
  \<open>RunTests\<close> has returned.

  Where a task stands:
  \<^item> \<open>AtFirstAcquire\<close>: before \<open>require.NoError(t, s.Acquire(ctx, 1))\<close>, the first
    statement of the goroutine;
  \<^item> \<open>AtSecondAcquire\<close>: \<open>defer s.Release(1)\<close> is registered and the \<open>TestEnv\<close> is
    built; before the second \<open>require.NoError(t, s.Acquire(ctx, 1))\<close>;
  \<^item> \<open>AtRun\<close>: before \<open>t.Run\<close>, which runs the test body;
  \<^item> \<open>AtSend\<close>: before \<open>doneCh <- struct{}{}\<close>;
  \<^item> \<open>AtRelease\<close>: returning, before the deferred \<open>s.Release(1)\<close>;
  \<^item> \<open>Finished\<close>: returned; \<open>FailedNow\<close>: ended by \<open>t.FailNow\<close>.
\<close>

datatype task_pc =
    AtFirstAcquire
  | AtSecondAcquire
  | AtRun
  | AtSend
  | AtRelease
  | Finished
  | FailedNow

record sched =
  sem_size :: int
  sem_cur :: int
  tasks :: "task_pc list"
  bodies_run :: nat
  done_count :: nat
  ctx_cancelled :: bool
  returned :: bool

definition RunTests_start :: "int \<Rightarrow> nat \<Rightarrow> sched" where
  "RunTests_start concurrency ntests =
     \<lparr>sem_size = concurrency, sem_cur = 0, tasks = replicate ntests AtFirstAcquire,
      bodies_run = 0, done_count = 0, ctx_cancelled = False, returned = False\<rparr>"

text \<open>
  One step of task \<open>i\<close>; \<open>None\<close> when the task is blocked or has ended.
  \<open>s.Acquire(ctx, 1)\<close> takes a permit when one is free, returns the context's error
  when the context is cancelled, and blocks otherwise; on the error \<open>require.NoError\<close>
  ends the goroutine, which runs the deferred calls registered so far. The send on the
  unbuffered \<open>doneCh\<close> goes through when the waiting loop of \<open>RunTests\<close> receives it.
\<close>

definition task_step :: "sched \<Rightarrow> nat \<Rightarrow> sched option" where
  "task_step s i =
     (if \<not> i < length (tasks s) then None
      else
        (case tasks s ! i of
           AtFirstAcquire \<Rightarrow>
             if sem_size s - sem_cur s \<ge> 1
             then Some (s\<lparr>sem_cur := sem_cur s + 1, tasks := (tasks s)[i := AtSecondAcquire]\<rparr>)
             else if ctx_cancelled s
             then Some (s\<lparr>tasks := (tasks s)[i := FailedNow]\<rparr>)
             else None
         | AtSecondAcquire \<Rightarrow>
             if sem_size s - sem_cur s \<ge> 1
             then Some (s\<lparr>sem_cur := sem_cur s + 1, tasks := (tasks s)[i := AtRun]\<rparr>)
             else if ctx_cancelled s
             then Some (s\<lparr>sem_cur := sem_cur s - 1, tasks := (tasks s)[i := FailedNow]\<rparr>)
             else None
         | AtRun \<Rightarrow>
             Some (s\<lparr>bodies_run := bodies_run s + 1, tasks := (tasks s)[i := AtSend]\<rparr>)
         | AtSend \<Rightarrow>
             if \<not> returned s \<and> done_count s < length (tasks s)
             then Some (s\<lparr>done_count := done_count s + 1, tasks := (tasks s)[i := AtRelease]\<rparr>)
             else None
         | AtRelease \<Rightarrow>
             Some (s\<lparr>sem_cur := sem_cur s - 1, tasks := (tasks s)[i := Finished]\<rparr>)
         | Finished \<Rightarrow> None
         | FailedNow \<Rightarrow> None))"

text \<open>
  The waiting loop of \<open>RunTests\<close>: it returns when all tests are counted or the context
  is cancelled, and waits otherwise (the receive is part of the sender's step).
\<close>

definition wait_step :: "sched \<Rightarrow> sched option" where
  "wait_step s =
     (if returned s then None
      else if \<not> done_count s < length (tasks s) then Some (s\<lparr>returned := True\<rparr>)
      else if ctx_cancelled s then Some (s\<lparr>returned := True\<rparr>)
      else None)"

datatype action = Task nat | Wait | Cancel

fun step :: "sched \<Rightarrow> action \<Rightarrow> sched option" where
  "step s (Task i) = task_step s i"
| "step s Wait = wait_step s"
| "step s Cancel = Some (s\<lparr>ctx_cancelled := True\<rparr>)"

fun run :: "sched \<Rightarrow> action list \<Rightarrow> sched option" where
  "run s [] = Some s"
| "run s (a # as) = (case step s a of None \<Rightarrow> None | Some s' \<Rightarrow> run s' as)"

subsection \<open>Auxiliary notions for the scheduler theorems\<close>

text \<open>The permits a task holds where it stands.\<close>

fun held :: "task_pc \<Rightarrow> int" where
  "held AtFirstAcquire = 0"
| "held AtSecondAcquire = 1"
| "held AtRun = 2"
| "held AtSend = 2"
| "held AtRelease = 2"
| "held Finished = 1"
| "held FailedNow = 0"

section \<open>Vault: nonces and funding\<close>








lemma CreateAccount_poll_pending:
  "i + k \<le> 60 \<Longrightarrow> \<forall>j<k. pending (rpc (i + j)) \<Longrightarrow>
   CreateAccount_poll rpc addr i =
     (fst (CreateAccount_poll rpc addr (i + k)),
      concat (map (\<lambda>j. [EvTransactionReceipt j, EvSleep 1000]) [i..<i + k])
        @ snd (CreateAccount_poll rpc addr (i + k)))"
proof (induction k arbitrary: i)
  case 0
  then show ?case by simp
next
  case (Suc k)
  from Suc.prems have i: "i < 60" and p: "pending (rpc i)" 
    by (simp, metis add.right_neutral zero_less_Suc)
  have rest: "\<forall>j<k. pending (rpc (Suc i + j))" using Suc.prems(2) by (metis add_Suc_shift Suc_less_eq)
  have step: "CreateAccount_poll rpc addr i =
      (fst (CreateAccount_poll rpc addr (Suc i)),
       EvTransactionReceipt i # EvSleep 1000 # snd (CreateAccount_poll rpc addr (Suc i)))"
    using i p by (subst CreateAccount_poll.simps) (auto simp: pending_def case_prod_unfold)
  have IH: "CreateAccount_poll rpc addr (Suc i) =
     (fst (CreateAccount_poll rpc addr (Suc i + k)),
      concat (map (\<lambda>j. [EvTransactionReceipt j, EvSleep 1000]) [Suc i..<Suc i + k])
        @ snd (CreateAccount_poll rpc addr (Suc i + k)))"
    using Suc.IH [of "Suc i"] Suc.prems(1) rest by simp
  have f: "fst (CreateAccount_poll rpc addr (Suc i)) = fst (CreateAccount_poll rpc addr (Suc i + k))"
    by (subst IH) simp
  have s: "snd (CreateAccount_poll rpc addr (Suc i)) =
      concat (map (\<lambda>j. [EvTransactionReceipt j, EvSleep 1000]) [Suc i..<Suc i + k])
        @ snd (CreateAccount_poll rpc addr (Suc i + k))"
    by (subst IH) simp
  have up: "[i..<i + Suc k] = i # [Suc i..<Suc i + k]" by (simp add: upt_conv_Cons)
  show ?case
    unfolding up step f s by simp
qed

lemma CreateAccount_poll_queries:
  "length (filter is_query (snd (CreateAccount_poll rpc addr i))) \<le> 60 - i"
proof (induction rpc addr i rule: CreateAccount_poll.induct)
  case (1 rpc addr i)
  show ?case
  proof (cases "i < 60 \<and> pending (rpc i)")
    case True
    then have step: "snd (CreateAccount_poll rpc addr i) =
        EvTransactionReceipt i # EvSleep 1000 # snd (CreateAccount_poll rpc addr (i + 1))"
      by (subst CreateAccount_poll.simps) (auto simp: pending_def case_prod_unfold)
    from True have "length (filter is_query (snd (CreateAccount_poll rpc addr (i + 1)))) \<le> 60 - (i + 1)"
      by (intro "1.IH"[of "fst (rpc i)" "snd (rpc i)"]) (auto simp: pending_def prod_eq_iff)
    with True show ?thesis unfolding step by auto
  next
    case False
    then show ?thesis
      by (subst CreateAccount_poll.simps) (auto simp: pending_def case_prod_unfold)
  qed
qed

lemma CreateAccount_poll_found:
  assumes "k < 60" and "\<forall>j<k. pending (rpc j)" and "rpc k = (Some rc, None)"
  shows "CreateAccount_poll rpc addr 0 =
     (Return addr,
      concat (map (\<lambda>j. [EvTransactionReceipt j, EvSleep 1000]) [0..<k]) @ [EvTransactionReceipt k])"
proof -
  have "CreateAccount_poll rpc addr k = (Return addr, [EvTransactionReceipt k])"
    using assms(1,3) by (subst CreateAccount_poll.simps) simp
  with CreateAccount_poll_pending [of 0 k rpc addr] assms(1,2) show ?thesis by simp
qed

lemma CreateAccount_poll_timeout:
  assumes "\<forall>j<60. pending (rpc j)"
  shows "CreateAccount_poll rpc addr 0 =
     (Fatal ''timed out getting transaction receipt'',
      concat (map (\<lambda>j. [EvTransactionReceipt j, EvSleep 1000]) [0..<60]))"
proof -
  have "CreateAccount_poll rpc addr 60 = (Fatal ''timed out getting transaction receipt'', [])"
    by (subst CreateAccount_poll.simps) simp
  with CreateAccount_poll_pending [of 0 60 rpc addr] assms show ?thesis by simp
qed

lemma CreateAccount_broadcast:
  assumes "fst (GenerateKey ext (generated env) v) = Return addr"
    and "fst (makeFundingTx ext (snd (GenerateKey ext (generated env) v)) addr
               (case amount of None \<Rightarrow> 0 | Some a \<Rightarrow> a)) = Return tx"
    and "SendTransaction env tx = None"
  shows "CreateAccount ext env v amount =
      (fst (CreateAccount_poll (TransactionReceipt env) addr 0),
       snd (makeFundingTx ext (snd (GenerateKey ext (generated env) v)) addr
               (case amount of None \<Rightarrow> 0 | Some a \<Rightarrow> a)),
       EvSendTransaction tx # snd (CreateAccount_poll (TransactionReceipt env) addr 0))"
  using assms
  by (cases "GenerateKey ext (generated env) v";
      cases "makeFundingTx ext (snd (GenerateKey ext (generated env) v)) addr
               (case amount of None \<Rightarrow> 0 | Some a \<Rightarrow> a)")
     (simp add: CreateAccount_def case_prod_unfold)





text \<open>
  Claim C8. Once \<open>CreateAccount\<close> has broadcast the funding transaction (key generation,
  signing and sending succeeded), it queries the receipt at most 60 times, always ends,
  and sleeps one second after every query that found nothing; if the receipt appears at
  attempt \<open>k < 60\<close> it returns the new account's address after exactly \<open>k + 1\<close> queries,
  and if none of the 60 attempts finds a receipt it fails with the fatal
  "timed out getting transaction receipt".
\<close>

theorem CreateAccount_receipt_budget:
  assumes "fst (GenerateKey ext (generated env) v) = Return addr"
    and "fst (makeFundingTx ext (snd (GenerateKey ext (generated env) v)) addr
               (case amount of None \<Rightarrow> 0 | Some a \<Rightarrow> a)) = Return tx"
    and "SendTransaction env tx = None"
  shows "length (filter is_query (snd (snd (CreateAccount ext env v amount)))) \<le> 60
       \<and> (\<forall>k rc. k < 60 \<and> (\<forall>j<k. pending (TransactionReceipt env j))
                    \<and> TransactionReceipt env k = (Some rc, None) \<longrightarrow>
            fst (CreateAccount ext env v amount) = Return addr
          \<and> snd (snd (CreateAccount ext env v amount)) =
              EvSendTransaction tx
                # concat (map (\<lambda>j. [EvTransactionReceipt j, EvSleep 1000]) [0..<k])
                @ [EvTransactionReceipt k])
       \<and> ((\<forall>j<60. pending (TransactionReceipt env j)) \<longrightarrow>
            fst (CreateAccount ext env v amount) = Fatal ''timed out getting transaction receipt''
          \<and> snd (snd (CreateAccount ext env v amount)) =
              EvSendTransaction tx
                # concat (map (\<lambda>j. [EvTransactionReceipt j, EvSleep 1000]) [0..<60]))"
proof -
  note ca = CreateAccount_broadcast [OF assms]
  have budget: "length (filter is_query (snd (snd (CreateAccount ext env v amount)))) \<le> 60"
    using CreateAccount_poll_queries [of "TransactionReceipt env" addr 0] by (simp add: ca)
  have found: "fst (CreateAccount ext env v amount) = Return addr
          \<and> snd (snd (CreateAccount ext env v amount)) =
              EvSendTransaction tx
                # concat (map (\<lambda>j. [EvTransactionReceipt j, EvSleep 1000]) [0..<k])
                @ [EvTransactionReceipt k]"
    if "k < 60 \<and> (\<forall>j<k. pending (TransactionReceipt env j))
                    \<and> TransactionReceipt env k = (Some rc, None)" for k rc
    using that CreateAccount_poll_found [of k "TransactionReceipt env" rc addr] by (simp add: ca)
  have timeout: "fst (CreateAccount ext env v amount) = Fatal ''timed out getting transaction receipt''
          \<and> snd (snd (CreateAccount ext env v amount)) =
              EvSendTransaction tx
                # concat (map (\<lambda>j. [EvTransactionReceipt j, EvSleep 1000]) [0..<60])"
    if "\<forall>j<60. pending (TransactionReceipt env j)"
    using that CreateAccount_poll_timeout [of "TransactionReceipt env" addr] by (simp add: ca)
  from budget found timeout show ?thesis by blast
qed

text \<open>The theorem where the receipt appears at the third attempt, and where it never appears.\<close>

theorem CreateAccount_receipt_budget_witness:
  "fst (CreateAccount example_externals (example_account_env 2) (NewVault 1) (Some 10)) = Return 7
   \<and> snd (snd (CreateAccount example_externals (example_account_env 2) (NewVault 1) (Some 10))) =
       [EvSendTransaction \<lparr>inner = \<lparr>Nonce = 0, Gas = 75000, GasTipCap = 1000000000, GasFeeCap = 1,
                                    To = 7, Value = 10\<rparr>, sig = 0\<rparr>,
        EvTransactionReceipt 0, EvSleep 1000, EvTransactionReceipt 1, EvSleep 1000,
        EvTransactionReceipt 2]
   \<and> fst (CreateAccount example_externals (example_account_env 60) (NewVault 1) (Some 10))
       = Fatal ''timed out getting transaction receipt''"
proof -
  let ?tx = "\<lparr>inner = \<lparr>Nonce = 0, Gas = 75000, GasTipCap = 1000000000, GasFeeCap = 1,
                        To = 7, Value = 10\<rparr>, sig = 0\<rparr>"
  have g: "fst (GenerateKey example_externals (generated (example_account_env n)) (NewVault 1)) = Return 7" for n
    by (simp add: GenerateKey_def example_externals_def example_account_env_def)
  have m: "fst (makeFundingTx example_externals
                  (snd (GenerateKey example_externals (generated (example_account_env n)) (NewVault 1)))
                  7 (case Some 10 of None \<Rightarrow> 0 | Some a \<Rightarrow> a)) = Return ?tx" for n
    by (simp add: GenerateKey_def makeFundingTx_def nextNonce_def example_externals_def
          example_account_env_def NewVault_def GWei_def Let_def)
  have s: "SendTransaction (example_account_env n) ?tx = None" for n
    by (simp add: example_account_env_def)
  have p2: "2 < (60::nat) \<and> (\<forall>j<2. pending (TransactionReceipt (example_account_env 2) j))
      \<and> TransactionReceipt (example_account_env 2) 2 = (Some \<lparr>Status = 1, BlockNumber = 5\<rparr>, None)"
    by (simp add: example_account_env_def pending_def errors_Is_def)
  have p60: "\<forall>j<60. pending (TransactionReceipt (example_account_env 60) j)"
    by (simp add: example_account_env_def pending_def errors_Is_def)
  have up: "[0..<2] = [0, Suc 0]" by (simp add: upt_conv_Cons)
  from CreateAccount_receipt_budget [OF g m s, of 2] p2
  have "fst (CreateAccount example_externals (example_account_env 2) (NewVault 1) (Some 10)) = Return 7
     \<and> snd (snd (CreateAccount example_externals (example_account_env 2) (NewVault 1) (Some 10))) =
         EvSendTransaction ?tx
           # concat (map (\<lambda>j. [EvTransactionReceipt j, EvSleep 1000]) [0..<2])
           @ [EvTransactionReceipt 2]"
    by blast
  moreover from CreateAccount_receipt_budget [OF g m s, of 60] p60
  have "fst (CreateAccount example_externals (example_account_env 60) (NewVault 1) (Some 10))
       = Fatal ''timed out getting transaction receipt''"
    by blast
  ultimately show ?thesis by (simp add: up)
qed

section \<open>Wait primitives: receipts, heights and events\<close>

lemma WaitReceipt_from_retried:
  "retried rpc sel i \<Longrightarrow>
   WaitReceipt_from rpc sel status i = WaitReceipt_from rpc sel status (Suc i)"
  by (subst WaitReceipt_from.simps) (simp add: retried_def case_prod_unfold)

lemma WaitReceipt_from_skip:
  "\<forall>j<k. retried rpc sel (i + j) \<Longrightarrow>
   WaitReceipt_from rpc sel status i = WaitReceipt_from rpc sel status (i + k)"
proof (induction k arbitrary: i)
  case 0
  then show ?case by simp
next
  case (Suc k)
  from Suc.prems have "retried rpc sel i" by (metis add.right_neutral zero_less_Suc)
  moreover have "\<forall>j<k. retried rpc sel (Suc i + j)"
    using Suc.prems by (metis add_Suc_shift Suc_less_eq)
  ultimately show ?case
    using Suc.IH [of "Suc i"] by (simp add: WaitReceipt_from_retried)
qed

lemma WaitReceipt_from_found:
  "rpc i = (Some r, None) \<Longrightarrow>
   WaitReceipt_from rpc sel status i =
     Some (Return (Some r, if Status r \<noteq> status then Some (StatusMismatch status (Status r)) else None),
           Suc i)"
  by (subst WaitReceipt_from.simps) (simp add: errors_Is_def)

lemma WaitReceipt_from_cancelled:
  "errors_Is (snd (rpc i)) NotFound \<Longrightarrow> sel i = CtxDone e \<Longrightarrow>
   WaitReceipt_from rpc sel status i = Some (Return (None, Some e), Suc i)"
  by (subst WaitReceipt_from.simps) (simp add: case_prod_unfold)

lemma WaitReceipt_from_error:
  "snd (rpc i) = Some e \<Longrightarrow> \<not> errors_Is (Some e) NotFound \<Longrightarrow>
   WaitReceipt_from rpc sel status i = Some (Return (None, Some e), Suc i)"
  by (subst WaitReceipt_from.simps) (simp add: case_prod_unfold)

lemma WaitReceipt_from_returned:
  assumes "WaitReceipt_from rpc sel status i = Some y"
  shows "i < snd y \<and> (\<forall>r err. fst y = Return (Some r, err) \<longrightarrow>
      rpc (snd y - 1) = (Some r, None)
      \<and> err = (if Status r \<noteq> status then Some (StatusMismatch status (Status r)) else None))"
proof (rule WaitReceipt_from.raw_induct
        [where P = "\<lambda>rpc sel status i y. i < snd y \<and> (\<forall>r err. fst y = Return (Some r, err) \<longrightarrow>
            rpc (snd y - 1) = (Some r, None)
            \<and> err = (if Status r \<noteq> status then Some (StatusMismatch status (Status r)) else None))",
         OF _ assms], goal_cases)
  case (1 f rpc sel status i y)
  show ?case
  proof (cases "retried rpc sel i")
    case True
    with 1(2) have "f rpc sel status (i + 1) = Some y"
      by (simp add: retried_def case_prod_unfold)
    from 1(1) [OF this] show ?thesis by auto
  next
    case False
    obtain receipt err where rpc: "rpc i = (receipt, err)" by (cases "rpc i")
    show ?thesis
    proof (cases "errors_Is err NotFound")
      case nf: True
      with False rpc obtain e where "sel i = CtxDone e"
        by (cases "sel i") (simp_all add: retried_def)
      with 1(2) rpc nf have "y = (Return (None, Some e), i + 1)" by simp
      then show ?thesis by simp
    next
      case nnf: False
      show ?thesis
      proof (cases err)
        case (Some e)
        with 1(2) rpc nnf have "y = (Return (None, err), i + 1)" by simp
        then show ?thesis by simp
      next
        case None
        show ?thesis
        proof (cases receipt)
          case nil: None
          with 1(2) rpc nnf None have "y = (Panic ''nil pointer dereference'', i + 1)" by simp
          then show ?thesis by simp
        next
          case (Some r)
          with 1(2) rpc nnf None
          have "y = (Return (Some r, if Status r \<noteq> status
                       then Some (StatusMismatch status (Status r)) else None), i + 1)"
            by (auto split: if_splits)
          with rpc None Some show ?thesis by simp
        qed
      qed
    qed
  qed
qed

text \<open>
  Claim C3. When the first query that is not retried finds a receipt, \<open>WaitReceipt\<close>
  returns that receipt, with the status-mismatch error when its status differs from the
  expected status and with a nil error otherwise. Conversely, whenever \<open>WaitReceipt\<close>
  returns a non-nil receipt it is the receipt of its last query, and the error is
  non-nil exactly when the receipt's status differs from the expected status.
\<close>

theorem WaitReceipt_status_mismatch:
  "(\<forall>k r. (\<forall>j<k. retried rpc sel j) \<and> rpc k = (Some r, None) \<longrightarrow>
      WaitReceipt rpc sel status =
        Some (Return (Some r, if Status r \<noteq> status
                              then Some (StatusMismatch status (Status r)) else None),
              Suc k))
   \<and> (\<forall>r err n. WaitReceipt rpc sel status = Some (Return (Some r, err), n) \<longrightarrow>
        0 < n \<and> rpc (n - 1) = (Some r, None)
        \<and> (err \<noteq> None \<longleftrightarrow> Status r \<noteq> status)
        \<and> (Status r \<noteq> status \<longrightarrow> err = Some (StatusMismatch status (Status r))))"
proof -
  have found: "WaitReceipt rpc sel status =
        Some (Return (Some r, if Status r \<noteq> status
                              then Some (StatusMismatch status (Status r)) else None),
              Suc k)"
    if "(\<forall>j<k. retried rpc sel j) \<and> rpc k = (Some r, None)" for k r
    using that WaitReceipt_from_skip [of k rpc sel 0 status] WaitReceipt_from_found [of rpc k r sel status]
    by (simp add: WaitReceipt_def)
  have ret: "0 < n \<and> rpc (n - 1) = (Some r, None)
        \<and> (err \<noteq> None \<longleftrightarrow> Status r \<noteq> status)
        \<and> (Status r \<noteq> status \<longrightarrow> err = Some (StatusMismatch status (Status r)))"
    if "WaitReceipt rpc sel status = Some (Return (Some r, err), n)" for r err n
    using WaitReceipt_from_returned [of rpc sel status 0 "(Return (Some r, err), n)"] that
    by (simp add: WaitReceipt_def split: if_splits)
  from found ret show ?thesis by blast
qed

text \<open>
  The theorem where the receipt appears at the fourth query, with a status that differs
  from the expected one and with the expected one.
\<close>

theorem WaitReceipt_status_mismatch_witness:
  "WaitReceipt (receipt_after 3 0) always_tick 1 =
     Some (Return (Some \<lparr>Status = 0, BlockNumber = 1\<rparr>, Some (StatusMismatch 1 0)), 4)
   \<and> WaitReceipt (receipt_after 3 1) always_tick 1 =
     Some (Return (Some \<lparr>Status = 1, BlockNumber = 1\<rparr>, None), 4)"
proof -
  have h: "(\<forall>j<3. retried (receipt_after 3 st) always_tick j)
      \<and> receipt_after 3 st 3 = (Some \<lparr>Status = st, BlockNumber = 1\<rparr>, None)" for st
    by (simp add: retried_def receipt_after_def always_tick_def errors_Is_def)
  from WaitReceipt_status_mismatch [of "receipt_after 3 0" always_tick 1] h [of 0]
  have "WaitReceipt (receipt_after 3 0) always_tick 1 =
     Some (Return (Some \<lparr>Status = 0, BlockNumber = 1\<rparr>,
        if Status \<lparr>Status = 0, BlockNumber = 1\<rparr> \<noteq> (1 :: 64 word)
        then Some (StatusMismatch 1 (Status \<lparr>Status = 0, BlockNumber = 1\<rparr>)) else None), Suc 3)"
    by blast
  moreover from WaitReceipt_status_mismatch [of "receipt_after 3 1" always_tick 1] h [of 1]
  have "WaitReceipt (receipt_after 3 1) always_tick 1 =
     Some (Return (Some \<lparr>Status = 1, BlockNumber = 1\<rparr>,
        if Status \<lparr>Status = 1, BlockNumber = 1\<rparr> \<noteq> (1 :: 64 word)
        then Some (StatusMismatch 1 (Status \<lparr>Status = 1, BlockNumber = 1\<rparr>)) else None), Suc 3)"
    by blast
  ultimately show ?thesis by simp
qed

text \<open>
  Claim C4. In every iteration of \<open>WaitReceipt\<close>: on "not found" the loop goes to its
  next iteration when the ticker fires, and returns a nil receipt with the context's
  error when the context is done; any other error of the query is returned at once with
  a nil receipt. For the whole call: after \<open>k\<close> retried iterations, a cancellation or
  another error at iteration \<open>k\<close> ends the call after exactly \<open>k + 1\<close> queries.
\<close>

theorem WaitReceipt_retry_policy:
  "(errors_Is (snd (rpc i)) NotFound \<and> sel i = Tick \<longrightarrow>
      WaitReceipt_from rpc sel status i = WaitReceipt_from rpc sel status (i + 1))
   \<and> (\<forall>e. errors_Is (snd (rpc i)) NotFound \<and> sel i = CtxDone e \<longrightarrow>
        WaitReceipt_from rpc sel status i = Some (Return (None, Some e), i + 1))
   \<and> (\<forall>e. snd (rpc i) = Some e \<and> \<not> errors_Is (Some e) NotFound \<longrightarrow>
        WaitReceipt_from rpc sel status i = Some (Return (None, Some e), i + 1))
   \<and> (\<forall>k e. (\<forall>j<k. retried rpc sel j) \<and> errors_Is (snd (rpc k)) NotFound \<and> sel k = CtxDone e \<longrightarrow>
        WaitReceipt rpc sel status = Some (Return (None, Some e), k + 1))
   \<and> (\<forall>k e. (\<forall>j<k. retried rpc sel j) \<and> snd (rpc k) = Some e \<and> \<not> errors_Is (Some e) NotFound \<longrightarrow>
        WaitReceipt rpc sel status = Some (Return (None, Some e), k + 1))"
proof -
  have a: "errors_Is (snd (rpc i)) NotFound \<and> sel i = Tick \<longrightarrow>
      WaitReceipt_from rpc sel status i = WaitReceipt_from rpc sel status (i + 1)"
    using WaitReceipt_from_retried [of rpc sel i status] by (simp add: retried_def)
  have b: "\<forall>e. errors_Is (snd (rpc i)) NotFound \<and> sel i = CtxDone e \<longrightarrow>
        WaitReceipt_from rpc sel status i = Some (Return (None, Some e), i + 1)"
    by (simp add: WaitReceipt_from_cancelled)
  have c: "\<forall>e. snd (rpc i) = Some e \<and> \<not> errors_Is (Some e) NotFound \<longrightarrow>
        WaitReceipt_from rpc sel status i = Some (Return (None, Some e), i + 1)"
    by (simp add: WaitReceipt_from_error)
  have d: "WaitReceipt rpc sel status = Some (Return (None, Some e), k + 1)"
    if "(\<forall>j<k. retried rpc sel j) \<and> errors_Is (snd (rpc k)) NotFound \<and> sel k = CtxDone e" for k e
    using that WaitReceipt_from_skip [of k rpc sel 0 status]
      WaitReceipt_from_cancelled [of rpc k sel e status]
    by (simp add: WaitReceipt_def)
  have e: "WaitReceipt rpc sel status = Some (Return (None, Some e), k + 1)"
    if "(\<forall>j<k. retried rpc sel j) \<and> snd (rpc k) = Some e \<and> \<not> errors_Is (Some e) NotFound" for k e
    using that WaitReceipt_from_skip [of k rpc sel 0 status]
      WaitReceipt_from_error [of rpc k e sel status]
    by (simp add: WaitReceipt_def)
  from a b c d e show ?thesis by blast
qed

text \<open>
  The theorem at a query that fails at the third attempt, at a context cancelled during
  the second iteration, and at a first iteration that is retried.
\<close>

theorem WaitReceipt_retry_policy_witness:
  "WaitReceipt (rpc_error_after 2) always_tick 1 =
     Some (Return (None, Some (Errorf ''connection refused'')), 3)
   \<and> WaitReceipt (receipt_after 5 1) (cancelled_at 1) 1 = Some (Return (None, Some Canceled), 2)
   \<and> WaitReceipt_from (receipt_after 5 1) always_tick 1 0
       = WaitReceipt_from (receipt_after 5 1) always_tick 1 1"
proof -
  have h1: "(\<forall>j<2. retried (rpc_error_after 2) always_tick j)
      \<and> snd (rpc_error_after 2 2) = Some (Errorf ''connection refused'')
      \<and> \<not> errors_Is (Some (Errorf ''connection refused'')) NotFound"
    by (simp add: retried_def rpc_error_after_def always_tick_def errors_Is_def)
  have h2: "(\<forall>j<1. retried (receipt_after 5 1) (cancelled_at 1) j)
      \<and> errors_Is (snd (receipt_after 5 1 1)) NotFound \<and> cancelled_at 1 1 = CtxDone Canceled"
    by (simp add: retried_def receipt_after_def cancelled_at_def errors_Is_def)
  have h3: "errors_Is (snd (receipt_after 5 1 0)) NotFound \<and> always_tick 0 = Tick"
    by (simp add: receipt_after_def always_tick_def errors_Is_def)
  from WaitReceipt_retry_policy [of "rpc_error_after 2" 0 always_tick 1] h1
  have "WaitReceipt (rpc_error_after 2) always_tick 1 =
     Some (Return (None, Some (Errorf ''connection refused'')), 2 + 1)"
    by blast
  moreover from WaitReceipt_retry_policy [of "receipt_after 5 1" 0 "cancelled_at 1" 1] h2
  have "WaitReceipt (receipt_after 5 1) (cancelled_at 1) 1 = Some (Return (None, Some Canceled), 1 + 1)"
    by blast
  moreover from WaitReceipt_retry_policy [of "receipt_after 5 1" 0 always_tick 1] h3
  have "WaitReceipt_from (receipt_after 5 1) always_tick 1 0
       = WaitReceipt_from (receipt_after 5 1) always_tick 1 (0 + 1)"
    by blast
  ultimately show ?thesis by simp
qed

lemma WaitBlock_from_skip:
  "\<forall>j<k. below rpc n (i + j) \<Longrightarrow>
   WaitBlock_from rpc n i slept = WaitBlock_from rpc n (i + k) (slept + 500 * k)"
proof (induction k arbitrary: i slept)
  case 0
  then show ?case by simp
next
  case (Suc k)
  from Suc.prems have "below rpc n i" by (metis add.right_neutral zero_less_Suc)
  then have step: "WaitBlock_from rpc n i slept = WaitBlock_from rpc n (Suc i) (slept + 500)"
    by (subst WaitBlock_from.simps) (simp add: below_def case_prod_unfold)
  have "\<forall>j<k. below rpc n (Suc i + j)"
    using Suc.prems by (metis add_Suc_shift Suc_less_eq)
  from Suc.IH [OF this, of "slept + 500"] step show ?case by (simp add: add.assoc)
qed

lemma WaitBlock_devnet_from_skip:
  "\<forall>j<k. below rpc n (i + j) \<Longrightarrow>
   WaitBlock_devnet_from rpc n i slept = WaitBlock_devnet_from rpc n (i + k) (slept + 500 * k)"
proof (induction k arbitrary: i slept)
  case 0
  then show ?case by simp
next
  case (Suc k)
  from Suc.prems have "below rpc n i" by (metis add.right_neutral zero_less_Suc)
  then have step: "WaitBlock_devnet_from rpc n i slept = WaitBlock_devnet_from rpc n (Suc i) (slept + 500)"
    by (subst WaitBlock_devnet_from.simps) (simp add: below_def case_prod_unfold)
  have "\<forall>j<k. below rpc n (Suc i + j)"
    using Suc.prems by (metis add_Suc_shift Suc_less_eq)
  from Suc.IH [OF this, of "slept + 500"] step show ?case by (simp add: add.assoc)
qed

lemma WaitBlock_reached:
  assumes "\<forall>j<k. below rpc n j" and "snd (rpc k) = None" and "\<not> fst (rpc k) < n"
  shows "WaitBlock rpc n = Some (Return None, k + 1, 500 * k)"
    and "WaitBlock_devnet rpc n = Some (Return None, k + 1, 500 * k)"
proof -
  have "WaitBlock_from rpc n k (500 * k) = Some (Return None, k + 1, 500 * k)"
    using assms(2,3) by (subst WaitBlock_from.simps) (simp add: case_prod_unfold)
  with WaitBlock_from_skip [of k rpc n 0 0] assms(1)
  show "WaitBlock rpc n = Some (Return None, k + 1, 500 * k)"
    by (simp add: WaitBlock_def)
  have "WaitBlock_devnet_from rpc n k (500 * k) = Some (Return None, k + 1, 500 * k)"
    using assms(2,3) by (subst WaitBlock_devnet_from.simps) (simp add: case_prod_unfold)
  with WaitBlock_devnet_from_skip [of k rpc n 0 0] assms(1)
  show "WaitBlock_devnet rpc n = Some (Return None, k + 1, 500 * k)"
    by (simp add: WaitBlock_devnet_def)
qed

lemma WaitBlock_rpc_error:
  assumes "\<forall>j<k. below rpc n j" and "snd (rpc k) = Some e"
  shows "WaitBlock rpc n = Some (Fatal ''Received unexpected error'', k + 1, 500 * k)"
    and "WaitBlock_devnet rpc n = Some (Return (Some e), k + 1, 500 * k)"
proof -
  have "WaitBlock_from rpc n k (500 * k) = Some (Fatal ''Received unexpected error'', k + 1, 500 * k)"
    using assms(2) by (subst WaitBlock_from.simps) (simp add: case_prod_unfold)
  with WaitBlock_from_skip [of k rpc n 0 0] assms(1)
  show "WaitBlock rpc n = Some (Fatal ''Received unexpected error'', k + 1, 500 * k)"
    by (simp add: WaitBlock_def)
  have "WaitBlock_devnet_from rpc n k (500 * k) = Some (Return (Some e), k + 1, 500 * k)"
    using assms(2) by (subst WaitBlock_devnet_from.simps) (simp add: case_prod_unfold)
  with WaitBlock_devnet_from_skip [of k rpc n 0 0] assms(1)
  show "WaitBlock_devnet rpc n = Some (Return (Some e), k + 1, 500 * k)"
    by (simp add: WaitBlock_devnet_def)
qed

text \<open>
  Claim C5, as amended. \<open>WaitBlock\<close> sleeps 500 ms after every height below the target
  and returns nil at the first height that is not below it, after \<open>k + 1\<close> queries
  and \<open>500 * k\<close> ms of sleep. An error of the height query ends the call at once,
  without another query: the \<open>WaitBlock\<close> of helper.go fails the test through
  \<open>require.NoError\<close> and returns nothing, the \<open>WaitBlock\<close> of the second part of
  devnet.go returns the error to its caller.
\<close>

theorem WaitBlock_outcomes:
  "(\<forall>k. (\<forall>j<k. below rpc n j) \<and> snd (rpc k) = None \<and> \<not> fst (rpc k) < n \<longrightarrow>
       WaitBlock rpc n = Some (Return None, k + 1, 500 * k)
     \<and> WaitBlock_devnet rpc n = Some (Return None, k + 1, 500 * k))
   \<and> (\<forall>k e. (\<forall>j<k. below rpc n j) \<and> snd (rpc k) = Some e \<longrightarrow>
       WaitBlock rpc n = Some (Fatal ''Received unexpected error'', k + 1, 500 * k)
     \<and> WaitBlock_devnet rpc n = Some (Return (Some e), k + 1, 500 * k))"
  using WaitBlock_reached [of _ rpc n] WaitBlock_rpc_error [of _ rpc n] by blast

text \<open>
  The theorem where the height reaches the target at the fourth query, and where the
  third query fails.
\<close>

theorem WaitBlock_outcomes_witness:
  "WaitBlock height_grows 3 = Some (Return None, 4, 1500)
   \<and> WaitBlock_devnet height_grows 3 = Some (Return None, 4, 1500)
   \<and> WaitBlock (height_fails_after 2) 3 = Some (Fatal ''Received unexpected error'', 3, 1000)
   \<and> WaitBlock_devnet (height_fails_after 2) 3
       = Some (Return (Some (Errorf ''connection refused'')), 3, 1000)"
proof -
  have lt: "(of_nat j :: 64 word) < 3" if "j < 3" for j :: nat
  proof -
    from that consider "j = 0" | "j = 1" | "j = 2" by linarith
    then show ?thesis by cases simp_all
  qed
  have h1: "(\<forall>j<3. below height_grows 3 j) \<and> snd (height_grows 3) = None
      \<and> \<not> fst (height_grows 3) < 3"
    using lt by (simp add: below_def height_grows_def)
  have h2: "(\<forall>j<2. below (height_fails_after 2) 3 j)
      \<and> snd (height_fails_after 2 2) = Some (Errorf ''connection refused'')"
    using lt by (simp add: below_def height_fails_after_def)
  from WaitBlock_outcomes [of height_grows 3] h1
  have "WaitBlock height_grows 3 = Some (Return None, 3 + 1, 500 * 3)
      \<and> WaitBlock_devnet height_grows 3 = Some (Return None, 3 + 1, 500 * 3)"
    by blast
  moreover from WaitBlock_outcomes [of "height_fails_after 2" 3] h2
  have "WaitBlock (height_fails_after 2) 3 = Some (Fatal ''Received unexpected error'', 2 + 1, 500 * 2)
      \<and> WaitBlock_devnet (height_fails_after 2) 3
          = Some (Return (Some (Errorf ''connection refused'')), 2 + 1, 500 * 2)"
    by blast
  ultimately show ?thesis by simp
qed

text \<open>
  Claim C5 as stated fails for the \<open>WaitBlock\<close> of helper.go: when the first height
  query fails, the call does not return the error, it ends the test.
\<close>

theorem WaitBlock_error_not_returned_counterexample:
  "WaitBlock (height_fails_after 0) 1 = Some (Fatal ''Received unexpected error'', 1, 0)
   \<and> WaitBlock (height_fails_after 0) 1 \<noteq> Some (Return (Some (Errorf ''connection refused'')), 1, 0)"
  by (simp add: WaitBlock_def WaitBlock_from.simps height_fails_after_def)


section \<open>Devnet: whitelisting and contract deployment\<close>

lemma addWhitelist_no_start:
  "filter is_StartClient (snd (addWhitelist w d cli)) = []"
  by (simp add: addWhitelist_def split: option.splits sum.splits)

lemma addWhitelist_no_panic:
  "fst (addWhitelist w d cli) \<noteq> Panic m"
  by (simp add: addWhitelist_def split: option.splits sum.splits)

lemma addWhitelist_confirmed:
  "fst (addWhitelist w d cli) = Return None \<longleftrightarrow>
     NewTaikoL1Client w (L1_RollupAddress (c d)) cli = None
   \<and> NewKeyedTransactorWithChainID w (PrivateKey (L1_Deployer (c d))) (L1_ChainID (c d)) = None
   \<and> (\<exists>tx receipt. WhitelistProver w (Address (L2_Prover (c d))) True = Inr tx
         \<and> rpc_WaitReceipt w tx = Inr receipt \<and> Status receipt = ReceiptStatusSuccessful)"
  by (auto simp: addWhitelist_def split: option.splits sum.splits)

lemma addWhitelist_trace:
  "fst (addWhitelist w d cli) = Return None \<Longrightarrow>
   WhitelistProver w (Address (L2_Prover (c d))) True = Inr tx \<Longrightarrow>
   snd (addWhitelist w d cli) =
     [EvWhitelistProver (Address (L2_Prover (c d))) True, EvWaitReceipt tx,
      EvLog ''Add prover to whitelist finished'']"
  by (auto simp: addWhitelist_def split: option.splits sum.splits if_splits)

lemma AddProverNode_failed:
  assumes "fst (addWhitelist w d (client l1)) \<noteq> Return None"
  shows "\<exists>m. AddProverNode w d l1 l2 = (Fatal m, d, snd (addWhitelist w d (client l1)))
           \<or> AddProverNode w d l1 l2 = (Fatal m, d, [])"
proof (cases "addWhitelist w d (client l1)")
  case (Pair r tr)
  with assms addWhitelist_no_panic [of w d "client l1"] show ?thesis
    by (cases r) (auto simp: AddProverNode_def split: option.splits)
qed

lemma AddProverNode_not_started:
  assumes "filter is_StartClient (snd (snd (AddProverNode w d l1 l2))) = []"
  shows "\<exists>m. fst (AddProverNode w d l1 l2) = Fatal m"
    and "fst (snd (AddProverNode w d l1 l2)) = d"
proof -
  obtain r tr where wl: "addWhitelist w d (client l1) = (r, tr)" by (cases "addWhitelist w d (client l1)")
  have np: "r \<noteq> Panic m" for m using addWhitelist_no_panic [of w d "client l1" m] wl by simp
  from assms wl np show "\<exists>m. fst (AddProverNode w d l1 l2) = Fatal m"
    by (cases r) (auto simp: AddProverNode_def Let_def split: option.splits sum.splits if_splits)
  from assms wl np show "fst (snd (AddProverNode w d l1 l2)) = d"
    by (cases r) (auto simp: AddProverNode_def Let_def split: option.splits sum.splits if_splits)
qed

lemma AddProverNode_confirmed:
  assumes "fst (addWhitelist w d (client l1)) = Return None" and "length (Prover (clients d)) \<noteq> 0"
  shows "\<exists>name opts rest.
           snd (snd (AddProverNode w d l1 l2)) =
             snd (addWhitelist w d (client l1)) @ EvStartClient name opts # rest
         \<and> (case fst (AddProverNode w d l1 l2) of
               Return n \<Rightarrow> rest = [EvAppendProver n]
                   \<and> fst (snd (AddProverNode w d l1 l2)) = d\<lparr>provers := provers d @ [n]\<rparr>
             | Fatal m \<Rightarrow> rest = [] \<and> fst (snd (AddProverNode w d l1 l2)) = d
             | Panic m \<Rightarrow> False)"
proof (cases "addWhitelist w d (client l1)")
  case (Pair r tr)
  with assms show ?thesis
    by (auto simp: AddProverNode_def Let_def split: sum.splits)
qed

text \<open>
  Claim C6. In \<open>AddProverNode\<close> the prover client is started only after the whitelist
  transaction has been submitted and \<open>rpc.WaitReceipt\<close> has returned a receipt with the
  successful status: every run that starts the prover begins with the whitelist call, the
  wait for its receipt and the log of its success, and a run that returns the prover ends
  by appending it to \<open>provers\<close>. When the whitelist fails (a client or transactor
  error, a submission error, a receipt error or an unsuccessful status), the call ends in
  a fatal error, no client is started and the devnet is left as it was.
\<close>

theorem AddProverNode_whitelist_first:
  assumes "AddProverNode w d l1 l2 = (r, d', tr)"
  shows "(fst (addWhitelist w d (client l1)) \<noteq> Return None \<longrightarrow>
            (\<exists>m. r = Fatal m) \<and> d' = d \<and> filter is_StartClient tr = [])
       \<and> (fst (addWhitelist w d (client l1)) = Return None \<longleftrightarrow>
            NewTaikoL1Client w (L1_RollupAddress (c d)) (client l1) = None
          \<and> NewKeyedTransactorWithChainID w (PrivateKey (L1_Deployer (c d))) (L1_ChainID (c d)) = None
          \<and> (\<exists>tx receipt. WhitelistProver w (Address (L2_Prover (c d))) True = Inr tx
                \<and> rpc_WaitReceipt w tx = Inr receipt \<and> Status receipt = ReceiptStatusSuccessful))
       \<and> (filter is_StartClient tr \<noteq> [] \<longrightarrow>
            (\<exists>tx receipt name opts rest.
                WhitelistProver w (Address (L2_Prover (c d))) True = Inr tx
              \<and> rpc_WaitReceipt w tx = Inr receipt \<and> Status receipt = ReceiptStatusSuccessful
              \<and> tr = [EvWhitelistProver (Address (L2_Prover (c d))) True, EvWaitReceipt tx,
                       EvLog ''Add prover to whitelist finished'']
                      @ EvStartClient name opts # rest
              \<and> filter is_StartClient rest = []))
       \<and> (\<forall>n. r = Return n \<longrightarrow>
            filter is_StartClient tr \<noteq> [] \<and> last tr = EvAppendProver n
          \<and> d' = d\<lparr>provers := provers d @ [n]\<rparr>)
       \<and> ((\<forall>n. r \<noteq> Return n) \<longrightarrow> d' = d)"
proof -
  let ?wl = "addWhitelist w d (client l1)"
  have r: "r = fst (AddProverNode w d l1 l2)" and d': "d' = fst (snd (AddProverNode w d l1 l2))"
    and tr: "tr = snd (snd (AddProverNode w d l1 l2))"
    using assms by simp_all
  have iff: "fst ?wl = Return None \<longleftrightarrow>
            NewTaikoL1Client w (L1_RollupAddress (c d)) (client l1) = None
          \<and> NewKeyedTransactorWithChainID w (PrivateKey (L1_Deployer (c d))) (L1_ChainID (c d)) = None
          \<and> (\<exists>tx receipt. WhitelistProver w (Address (L2_Prover (c d))) True = Inr tx
                \<and> rpc_WaitReceipt w tx = Inr receipt \<and> Status receipt = ReceiptStatusSuccessful)"
    by (rule addWhitelist_confirmed)
  show ?thesis
  proof (cases "fst ?wl = Return None \<and> length (Prover (clients d)) \<noteq> 0")
    case False
    have "\<exists>m. AddProverNode w d l1 l2 = (Fatal m, d, snd ?wl) \<or> AddProverNode w d l1 l2 = (Fatal m, d, [])"
    proof (cases "length (Prover (clients d)) = 0")
      case True
      then have "AddProverNode w d l1 l2 = (Fatal ''no taiko prover client types found'', d, [])"
        by (simp add: AddProverNode_def)
      then show ?thesis by blast
    next
      case nz: False
      with False have "fst ?wl \<noteq> Return None" by simp
      then show ?thesis by (rule AddProverNode_failed)
    qed
    then obtain m where "AddProverNode w d l1 l2 = (Fatal m, d, snd ?wl)
        \<or> AddProverNode w d l1 l2 = (Fatal m, d, [])" by blast
    with assms have "r = Fatal m" and "d' = d" and "tr = snd ?wl \<or> tr = []" by auto
    moreover from this(3) have "filter is_StartClient tr = []"
      using addWhitelist_no_start [of w d "client l1"] by auto
    ultimately show ?thesis using iff by simp
  next
    case True
    then have ok: "fst ?wl = Return None" and nz: "length (Prover (clients d)) \<noteq> 0" by simp_all
    from ok iff obtain tx receipt where
      tx: "WhitelistProver w (Address (L2_Prover (c d))) True = Inr tx"
      and rc: "rpc_WaitReceipt w tx = Inr receipt" "Status receipt = ReceiptStatusSuccessful"
      by blast
    note wtr = addWhitelist_trace [OF ok tx]
    from AddProverNode_confirmed [OF ok nz, of l2] obtain name opts rest where
      shape: "tr = snd ?wl @ EvStartClient name opts # rest"
      and res: "(case r of
               Return n \<Rightarrow> rest = [EvAppendProver n] \<and> d' = d\<lparr>provers := provers d @ [n]\<rparr>
             | Fatal m \<Rightarrow> rest = [] \<and> d' = d
             | Panic m \<Rightarrow> False)"
      unfolding r d' tr by blast
    from res have rest: "filter is_StartClient rest = []" by (cases r) auto
    have started: "filter is_StartClient tr \<noteq> []" by (simp add: shape)
    have c3: "\<exists>tx receipt name opts rest.
                WhitelistProver w (Address (L2_Prover (c d))) True = Inr tx
              \<and> rpc_WaitReceipt w tx = Inr receipt \<and> Status receipt = ReceiptStatusSuccessful
              \<and> tr = [EvWhitelistProver (Address (L2_Prover (c d))) True, EvWaitReceipt tx,
                       EvLog ''Add prover to whitelist finished'']
                      @ EvStartClient name opts # rest
              \<and> filter is_StartClient rest = []"
      using tx rc shape rest unfolding wtr by blast
    have c4: "\<forall>n. r = Return n \<longrightarrow>
            filter is_StartClient tr \<noteq> [] \<and> last tr = EvAppendProver n
          \<and> d' = d\<lparr>provers := provers d @ [n]\<rparr>"
      using res started by (auto simp: shape)
    have c5: "(\<forall>n. r \<noteq> Return n) \<longrightarrow> d' = d"
      using res by (cases r) auto
    from ok iff c3 c4 c5 show ?thesis by blast
  qed
qed

text \<open>
  The theorem in a world where the whitelist receipt is successful, and in one where its
  status is the failed one.
\<close>

theorem AddProverNode_whitelist_first_witness:
  "last (snd (snd (AddProverNode (example_world 0 1) example_devnet example_l1 example_l2)))
     = EvAppendProver \<lparr>Type = ''taiko-prover'', Container = ''c1'', IP = ''10.0.0.1''\<rparr>
   \<and> provers (fst (snd (AddProverNode (example_world 0 1) example_devnet example_l1 example_l2)))
     = [\<lparr>Type = ''taiko-prover'', Container = ''c1'', IP = ''10.0.0.1''\<rparr>]
   \<and> fst (AddProverNode (example_world 0 0) example_devnet example_l1 example_l2)
     = Fatal ''Failed to commit transactions list''
   \<and> filter is_StartClient
        (snd (snd (AddProverNode (example_world 0 0) example_devnet example_l1 example_l2))) = []"
proof -
  let ?ok = "AddProverNode (example_world 0 1) example_devnet example_l1 example_l2"
  let ?bad = "AddProverNode (example_world 0 0) example_devnet example_l1 example_l2"
  have h1: "?ok = (fst ?ok, fst (snd ?ok), snd (snd ?ok))" by simp
  have h2: "?bad = (fst ?bad, fst (snd ?bad), snd (snd ?bad))" by simp
  have r1: "fst ?ok = Return \<lparr>Type = ''taiko-prover'', Container = ''c1'', IP = ''10.0.0.1''\<rparr>"
    by (simp add: AddProverNode_def addWhitelist_def example_world_def example_devnet_def
          example_config_def example_account_def ReceiptStatusSuccessful_def Let_def)
  have f2: "fst (addWhitelist (example_world 0 0) example_devnet (client example_l1)) \<noteq> Return None"
    by (simp add: addWhitelist_def example_world_def example_devnet_def
          example_config_def example_account_def ReceiptStatusSuccessful_def)
  have r2: "fst ?bad = Fatal ''Failed to commit transactions list''"
    by (simp add: AddProverNode_def addWhitelist_def example_world_def example_devnet_def
          example_config_def example_account_def ReceiptStatusSuccessful_def Let_def)
  from AddProverNode_whitelist_first [OF h1] r1
  have "last (snd (snd ?ok)) = EvAppendProver \<lparr>Type = ''taiko-prover'', Container = ''c1'', IP = ''10.0.0.1''\<rparr>
      \<and> fst (snd ?ok) = example_devnet\<lparr>provers := provers example_devnet
            @ [\<lparr>Type = ''taiko-prover'', Container = ''c1'', IP = ''10.0.0.1''\<rparr>]\<rparr>"
    by blast
  moreover from AddProverNode_whitelist_first [OF h2] f2
  have "filter is_StartClient (snd (snd ?bad)) = []" by blast
  ultimately show ?thesis using r2 by (simp add: example_devnet_def)
qed

lemma deployed_append: "deployed (xs @ ys) = deployed xs \<union> deployed ys"
  by (induction xs rule: deployed.induct) auto

lemma deployL1Contracts_ok:
  assumes "fst (deployL1Contracts w d n) = Return u"
  shows "\<exists>name opts cn result.
           snd (deployL1Contracts w d n) =
             [EvStartClient name opts, EvExec cn ''deploy.sh'',
              EvLogf ''Deploy contracts on'' (client n)]
         \<and> Exec w cn ''deploy.sh'' = Inr result \<and> ExitCode result = 0"
  using assms
  by (auto simp: deployL1Contracts_def Let_def split: option.splits sum.splits if_splits)

lemma deployL1Contracts_failed:
  assumes "fst (deployL1Contracts w d n) \<noteq> Return ()"
  shows "\<exists>m. fst (deployL1Contracts w d n) = Fatal m"
    and "deployed (snd (deployL1Contracts w d n)) = {}"
  using assms
  by (auto simp: deployL1Contracts_def Let_def split: option.splits sum.splits if_splits)

lemma deployL1Contracts_exec_failed:
  assumes "EvExec cn ''deploy.sh'' \<in> set (snd (deployL1Contracts w d n))"
    and "\<forall>result. Exec w cn ''deploy.sh'' = Inr result \<longrightarrow> ExitCode result \<noteq> 0"
  shows "fst (deployL1Contracts w d n) = Fatal ''failed to deploy contract on engine node''"
  using assms
  by (auto simp: deployL1Contracts_def Let_def split: option.splits sum.splits if_splits)

lemma deployL1Contracts_no_append:
  "EvAppendL1Engine n' \<notin> set (snd (deployL1Contracts w d n))"
  by (auto simp: deployL1Contracts_def Let_def split: option.splits sum.splits if_splits)

lemma AddL1ELNode_stages:
  assumes "AddL1ELNode w d Idx opts = (r, d', tr)"
  shows "(d' = d \<and> (\<exists>m. r = Fatal m \<or> r = Panic m)
            \<and> (\<forall>e\<in>set tr. is_StartClient e \<or> (\<exists>cl. e = EvChainID cl)))
       \<or> (\<exists>n name opts'.
             tr = EvStartClient name opts' # EvChainID (client n) # snd (deployL1Contracts w d n)
                    @ (if fst (deployL1Contracts w d n) = Return () then [EvAppendL1Engine n] else [])
           \<and> (fst (deployL1Contracts w d n) = Return () \<longrightarrow>
                 r = Return n \<and> d' = d\<lparr>l1Engines := l1Engines d @ [n]\<rparr>)
           \<and> (fst (deployL1Contracts w d n) \<noteq> Return () \<longrightarrow>
                 d' = d \<and> (\<exists>m. r = Fatal m \<and> fst (deployL1Contracts w d n) = Fatal m)))"
proof (cases "length (L1 (clients d)) = 0")
  case True
  with assms show ?thesis by (auto simp: AddL1ELNode_def)
next
  case nz: False
  show ?thesis
  proof (cases "Idx < length (L1 (clients d))")
    case False
    with assms nz show ?thesis by (auto simp: AddL1ELNode_def)
  next
    case True
    let ?opts = "opts @ [[(''envTaikoL1ChainID'', PInt (L1_ChainID (c d))),
                          (''envTaikoL1CliquePeriod'', PUint64 (L1_MineInterval (c d)))]]"
    let ?cl = "L1 (clients d) ! Idx"
    show ?thesis
    proof (cases "StartClient w (Name ?cl) ?opts")
      case (Inl e)
      with assms nz True show ?thesis by (auto simp: AddL1ELNode_def)
    next
      case (Inr started)
      let ?n = "\<lparr>client = started, RollupAddress = L1_RollupAddress (c d)\<rparr>"
      show ?thesis
      proof (cases "ChainID w started")
        case (Some e)
        with assms nz True Inr show ?thesis
          by (auto simp: AddL1ELNode_def WaitELNodesUp_def Let_def)
      next
        case None
        obtain dr dtr where dep: "deployL1Contracts w d ?n = (dr, dtr)"
          by (cases "deployL1Contracts w d ?n")
        show ?thesis
        proof (cases "dr = Return ()")
          case ok: True
          with assms nz True Inr None dep
          have "r = Return ?n" "d' = d\<lparr>l1Engines := l1Engines d @ [?n]\<rparr>"
            "tr = EvStartClient (Name ?cl) ?opts # EvChainID (client ?n) # dtr @ [EvAppendL1Engine ?n]"
            by (auto simp: AddL1ELNode_def WaitELNodesUp_def Let_def)
          with dep ok have "tr = EvStartClient (Name ?cl) ?opts # EvChainID (client ?n)
                    # snd (deployL1Contracts w d ?n)
                    @ (if fst (deployL1Contracts w d ?n) = Return () then [EvAppendL1Engine ?n] else [])
           \<and> (fst (deployL1Contracts w d ?n) = Return () \<longrightarrow>
                 r = Return ?n \<and> d' = d\<lparr>l1Engines := l1Engines d @ [?n]\<rparr>)
           \<and> (fst (deployL1Contracts w d ?n) \<noteq> Return () \<longrightarrow>
                 d' = d \<and> (\<exists>m. r = Fatal m \<and> fst (deployL1Contracts w d ?n) = Fatal m))"
            by simp
          then show ?thesis by blast
        next
          case bad: False
          with dep have "fst (deployL1Contracts w d ?n) \<noteq> Return ()" by simp
          from deployL1Contracts_failed(1) [OF this] dep obtain m where m: "dr = Fatal m" by auto
          with assms nz True Inr None dep
          have "r = Fatal m" "d' = d"
            "tr = EvStartClient (Name ?cl) ?opts # EvChainID (client ?n) # dtr"
            by (auto simp: AddL1ELNode_def WaitELNodesUp_def Let_def)
          with dep m have "tr = EvStartClient (Name ?cl) ?opts # EvChainID (client ?n)
                    # snd (deployL1Contracts w d ?n)
                    @ (if fst (deployL1Contracts w d ?n) = Return () then [EvAppendL1Engine ?n] else [])
           \<and> (fst (deployL1Contracts w d ?n) = Return () \<longrightarrow>
                 r = Return ?n \<and> d' = d\<lparr>l1Engines := l1Engines d @ [?n]\<rparr>)
           \<and> (fst (deployL1Contracts w d ?n) \<noteq> Return () \<longrightarrow>
                 d' = d \<and> (\<exists>m. r = Fatal m \<and> fst (deployL1Contracts w d ?n) = Fatal m))"
            by simp
          then show ?thesis by blast
        qed
      qed
    qed
  qed
qed

lemma deployed_mono: "deployed hist \<subseteq> deployed (hist @ tr)"
  by (simp add: deployed_append)

lemma deployL1Contracts_needs_client:
  "Contract (clients d) = None \<Longrightarrow> fst (deployL1Contracts w d n) \<noteq> Return ()"
  by (simp add: deployL1Contracts_def)

text \<open>
  Claim C7. A call of \<open>AddL1ELNode\<close> that returns the engine has run \<open>deploy.sh\<close>
  exactly once, with exit code 0, and logged the deployment on that engine before it
  appended the engine to \<open>l1Engines\<close>, where \<open>GetL1ELNode\<close> then finds it. A call that
  does not return the engine ends in a fatal error (or the panic of the index), appends
  nothing and leaves the devnet as it was; this is what happens when \<open>deploy.sh\<close>
  fails or exits with another code, and when there is no contract client type. So
  if every engine of \<open>l1Engines\<close> has its deployment in the history before the call,
  the same holds after it.
\<close>

theorem AddL1ELNode_deploys_before_append:
  assumes "AddL1ELNode w d Idx opts = (r, d', tr)"
  shows "(\<forall>n. r = Return n \<longrightarrow>
            d' = d\<lparr>l1Engines := l1Engines d @ [n]\<rparr>
          \<and> fst (deployL1Contracts w d n) = Return ()
          \<and> length (filter is_deploy tr) = 1
          \<and> (\<exists>pre cn result.
                tr = pre @ [EvExec cn ''deploy.sh'', EvLogf ''Deploy contracts on'' (client n),
                            EvAppendL1Engine n]
              \<and> filter is_deploy pre = []
              \<and> Exec w cn ''deploy.sh'' = Inr result \<and> ExitCode result = 0)
          \<and> GetL1ELNode d' (int (length (l1Engines d))) = Return n)
       \<and> ((\<forall>n. r \<noteq> Return n) \<longrightarrow>
            (\<exists>m. r = Fatal m \<or> r = Panic m) \<and> d' = d \<and> (\<forall>n. EvAppendL1Engine n \<notin> set tr))
       \<and> (\<forall>cn. EvExec cn ''deploy.sh'' \<in> set tr
               \<and> (\<forall>result. Exec w cn ''deploy.sh'' = Inr result \<longrightarrow> ExitCode result \<noteq> 0) \<longrightarrow>
             r = Fatal ''failed to deploy contract on engine node'' \<and> d' = d)
       \<and> (Contract (clients d) = None \<longrightarrow> (\<forall>n. r \<noteq> Return n))
       \<and> (client ` set (l1Engines d) \<subseteq> deployed hist \<longrightarrow>
            client ` set (l1Engines d') \<subseteq> deployed (hist @ tr))"
  (is "?ok \<and> ?fail \<and> ?exec \<and> ?nocl \<and> ?inv")
proof -
  from AddL1ELNode_stages [OF assms]
  consider (early) "d' = d" "\<exists>m. r = Fatal m \<or> r = Panic m"
      "\<forall>e\<in>set tr. is_StartClient e \<or> (\<exists>cl. e = EvChainID cl)"
    | (deployed) n name opts' where
      "tr = EvStartClient name opts' # EvChainID (client n) # snd (deployL1Contracts w d n)
              @ [EvAppendL1Engine n]"
      "fst (deployL1Contracts w d n) = Return ()" "r = Return n"
      "d' = d\<lparr>l1Engines := l1Engines d @ [n]\<rparr>"
    | (failed) n name opts' m where
      "tr = EvStartClient name opts' # EvChainID (client n) # snd (deployL1Contracts w d n)"
      "fst (deployL1Contracts w d n) = Fatal m" "r = Fatal m" "d' = d"
    by (cases "\<exists>n. fst (deployL1Contracts w d n) = Return ()") (auto split: if_splits)
  then show ?thesis
  proof cases
    case early
    from early(3) have noexec: "EvExec cn cmd \<notin> set tr" for cn cmd by auto
    from early(3) have noapp: "EvAppendL1Engine n \<notin> set tr" for n by auto
    from early(2) have "?ok" by auto
    moreover from early(1,2) noapp have "?fail" by auto
    moreover from noexec have "?exec" by auto
    moreover from early(2) have "?nocl" by auto
    moreover from early(1) have "?inv" using deployed_mono [of hist tr] by auto
    ultimately show ?thesis by blast
  next
    case deployed
    from deployL1Contracts_ok [OF deployed(2)] obtain cname copts cn result where
      dtr: "snd (deployL1Contracts w d n) =
             [EvStartClient cname copts, EvExec cn ''deploy.sh'',
              EvLogf ''Deploy contracts on'' (client n)]"
      and ex: "Exec w cn ''deploy.sh'' = Inr result" "ExitCode result = 0"
      by blast
    have tr: "tr = [EvStartClient name opts', EvChainID (client n), EvStartClient cname copts]
                @ [EvExec cn ''deploy.sh'', EvLogf ''Deploy contracts on'' (client n),
                   EvAppendL1Engine n]"
      by (simp add: deployed(1) dtr)
    have pre: "filter is_deploy [EvStartClient name opts', EvChainID (client n),
                                 EvStartClient cname copts] = []"
      by simp
    have one: "length (filter is_deploy tr) = 1" by (simp add: tr)
    have get: "GetL1ELNode d' (int (length (l1Engines d))) = Return n"
      by (simp add: GetL1ELNode_def deployed(4))
    have "?ok"
    proof (intro allI impI)
      fix n' assume "r = Return n'"
      with deployed(3) have n': "n' = n" by simp
      from tr pre ex have "\<exists>pre cn result.
                tr = pre @ [EvExec cn ''deploy.sh'', EvLogf ''Deploy contracts on'' (client n),
                            EvAppendL1Engine n]
              \<and> filter is_deploy pre = []
              \<and> Exec w cn ''deploy.sh'' = Inr result \<and> ExitCode result = 0"
        by blast
      with deployed(2,4) one get
      show "d' = d\<lparr>l1Engines := l1Engines d @ [n']\<rparr>
          \<and> fst (deployL1Contracts w d n') = Return ()
          \<and> length (filter is_deploy tr) = 1
          \<and> (\<exists>pre cn result.
                tr = pre @ [EvExec cn ''deploy.sh'', EvLogf ''Deploy contracts on'' (client n'),
                            EvAppendL1Engine n']
              \<and> filter is_deploy pre = []
              \<and> Exec w cn ''deploy.sh'' = Inr result \<and> ExitCode result = 0)
          \<and> GetL1ELNode d' (int (length (l1Engines d))) = Return n'"
        unfolding n' by blast
    qed
    moreover from deployed(3) have "?fail" by simp
    moreover have "?exec"
    proof (intro allI impI)
      fix cn' assume a: "EvExec cn' ''deploy.sh'' \<in> set tr
               \<and> (\<forall>result. Exec w cn' ''deploy.sh'' = Inr result \<longrightarrow> ExitCode result \<noteq> 0)"
      then have "cn' = cn" by (simp add: tr)
      with a ex show "r = Fatal ''failed to deploy contract on engine node'' \<and> d' = d" by simp
    qed
    moreover from deployed(2,3) have "?nocl"
      using deployL1Contracts_needs_client [of d w n] by auto
    moreover have "?inv"
    proof
      assume "client ` set (l1Engines d) \<subseteq> deployed hist"
      moreover have "client n \<in> deployed tr" by (simp add: tr)
      ultimately show "client ` set (l1Engines d') \<subseteq> deployed (hist @ tr)"
        by (auto simp: deployed(4) deployed_append)
    qed
    ultimately show ?thesis by blast
  next
    case failed
    have noapp: "EvAppendL1Engine n' \<notin> set tr" for n'
      using deployL1Contracts_no_append [of n' w d n] by (simp add: failed(1))
    from failed(3) have "?ok" by simp
    moreover from failed(3,4) noapp have "?fail" by auto
    moreover have "?exec"
    proof (intro allI impI)
      fix cn assume a: "EvExec cn ''deploy.sh'' \<in> set tr
               \<and> (\<forall>result. Exec w cn ''deploy.sh'' = Inr result \<longrightarrow> ExitCode result \<noteq> 0)"
      then have "EvExec cn ''deploy.sh'' \<in> set (snd (deployL1Contracts w d n))"
        by (simp add: failed(1))
      from deployL1Contracts_exec_failed [OF this] a failed(2,3,4)
      show "r = Fatal ''failed to deploy contract on engine node'' \<and> d' = d" by simp
    qed
    moreover from failed(3) have "?nocl" by simp
    moreover from failed(4) have "?inv" using deployed_mono [of hist tr] by auto
    ultimately show ?thesis by blast
  qed
qed

text \<open>
  The theorem in a world where the deployment exits with code 0, and in one where it exits
  with code 1.
\<close>

theorem AddL1ELNode_deploys_before_append_witness:
  "l1Engines (fst (snd (AddL1ELNode (example_world 0 1) example_devnet 0 []))) = [example_l1]
   \<and> length (filter is_deploy (snd (snd (AddL1ELNode (example_world 0 1) example_devnet 0 [])))) = 1
   \<and> GetL1ELNode (fst (snd (AddL1ELNode (example_world 0 1) example_devnet 0 []))) 0 = Return example_l1
   \<and> client example_l1 \<in> deployed (snd (snd (AddL1ELNode (example_world 0 1) example_devnet 0 [])))
   \<and> fst (AddL1ELNode (example_world 1 1) example_devnet 0 [])
       = Fatal ''failed to deploy contract on engine node''
   \<and> l1Engines (fst (snd (AddL1ELNode (example_world 1 1) example_devnet 0 []))) = []"
proof -
  let ?ok = "AddL1ELNode (example_world 0 1) example_devnet 0 []"
  let ?bad = "AddL1ELNode (example_world 1 1) example_devnet 0 []"
  let ?cn = "\<lparr>Type = ''taiko-protocol'', Container = ''c1'', IP = ''10.0.0.1''\<rparr>"
  have h1: "?ok = (fst ?ok, fst (snd ?ok), snd (snd ?ok))" by simp
  have h2: "?bad = (fst ?bad, fst (snd ?bad), snd (snd ?bad))" by simp
  have r1: "fst ?ok = Return example_l1"
    by (simp add: AddL1ELNode_def WaitELNodesUp_def deployL1Contracts_def example_world_def
          example_devnet_def example_config_def example_l1_def Let_def)
  have e2: "EvExec ?cn ''deploy.sh'' \<in> set (snd (snd ?bad))
      \<and> (\<forall>result. Exec (example_world 1 1) ?cn ''deploy.sh'' = Inr result \<longrightarrow> ExitCode result \<noteq> 0)"
    by (simp add: AddL1ELNode_def WaitELNodesUp_def deployL1Contracts_def example_world_def
          example_devnet_def example_config_def Let_def)
  have i: "client ` set (l1Engines example_devnet) \<subseteq> deployed []"
    by (simp add: example_devnet_def)
  have le: "l1Engines example_devnet = []" by (simp add: example_devnet_def)
  from AddL1ELNode_deploys_before_append [OF h1, of "[]"] r1 i
  have a: "fst (snd ?ok) = example_devnet\<lparr>l1Engines := l1Engines example_devnet @ [example_l1]\<rparr>"
    and b: "length (filter is_deploy (snd (snd ?ok))) = 1"
    and g: "GetL1ELNode (fst (snd ?ok)) (int (length (l1Engines example_devnet))) = Return example_l1"
    and s: "client ` set (l1Engines (fst (snd ?ok))) \<subseteq> deployed ([] @ snd (snd ?ok))"
    by blast+
  from a have a': "l1Engines (fst (snd ?ok)) = [example_l1]" by (simp add: le)
  from g have g': "GetL1ELNode (fst (snd ?ok)) 0 = Return example_l1" by (simp add: le)
  from s a' have s': "client example_l1 \<in> deployed (snd (snd ?ok))" by simp
  from AddL1ELNode_deploys_before_append [OF h2, of "[]"] e2
  have f: "fst ?bad = Fatal ''failed to deploy contract on engine node''"
    and u: "fst (snd ?bad) = example_devnet"
    by blast+
  from u have u': "l1Engines (fst (snd ?bad)) = []" by (simp add: le)
  from a' b g' s' f u' show ?thesis by blast
qed

section \<open>TestEnv: timeout contexts\<close>




section \<open>Test scheduler: permits\<close>

lemma held_update:
  "i < length xs \<Longrightarrow>
   sum_list (map held (xs[i := y])) = sum_list (map held xs) - held (xs ! i) + held y"
proof (induction xs arbitrary: i)
  case Nil
  then show ?case by simp
next
  case (Cons x xs)
  then show ?case by (cases i) simp_all
qed

lemma task_step_held:
  assumes "task_step s i = Some s'" and "sem_cur s = sum_list (map held (tasks s))"
  shows "sem_cur s' = sum_list (map held (tasks s')) \<and> length (tasks s') = length (tasks s)"
proof -
  from assms(1) have i: "i < length (tasks s)"
    by (simp add: task_step_def split: if_splits)
  show ?thesis
  proof (cases "tasks s ! i")
    case AtFirstAcquire
    with assms i show ?thesis
      by (auto simp: task_step_def held_update split: if_splits)
  next
    case AtSecondAcquire
    with assms i show ?thesis
      by (auto simp: task_step_def held_update split: if_splits)
  next
    case AtRun
    with assms i show ?thesis
      by (auto simp: task_step_def held_update split: if_splits)
  next
    case AtSend
    with assms i show ?thesis
      by (auto simp: task_step_def held_update split: if_splits)
  next
    case AtRelease
    with assms i show ?thesis
      by (auto simp: task_step_def held_update split: if_splits)
  next
    case Finished
    with assms i show ?thesis by (simp add: task_step_def)
  next
    case FailedNow
    with assms i show ?thesis by (simp add: task_step_def)
  qed
qed

lemma step_held:
  assumes "step s a = Some s'" and "sem_cur s = sum_list (map held (tasks s))"
  shows "sem_cur s' = sum_list (map held (tasks s')) \<and> length (tasks s') = length (tasks s)"
proof (cases a)
  case (Task i)
  with assms task_step_held [of s i s'] show ?thesis by simp
next
  case Wait
  with assms show ?thesis by (auto simp: wait_step_def split: if_splits)
next
  case Cancel
  with assms show ?thesis by auto
qed

lemma run_held:
  "run s as = Some s' \<Longrightarrow> sem_cur s = sum_list (map held (tasks s)) \<Longrightarrow>
   sem_cur s' = sum_list (map held (tasks s')) \<and> length (tasks s') = length (tasks s)"
proof (induction as arbitrary: s)
  case Nil
  then show ?case by simp
next
  case (Cons a as)
  from Cons.prems(1) obtain s1 where s1: "step s a = Some s1" and r: "run s1 as = Some s'"
    by (auto split: option.splits)
  from step_held [OF s1 Cons.prems(2)] Cons.IH [OF r] show ?case by simp
qed

lemma sum_list_held_Finished:
  "\<forall>p\<in>set xs. p = Finished \<Longrightarrow> sum_list (map held xs) = int (length xs)"
  by (induction xs) simp_all

text \<open>
  In every interleaving, the permits held are those the tasks hold where they stand: none
  before the first \<open>Acquire\<close>, one after it, two from the second \<open>Acquire\<close> to the
  deferred \<open>Release\<close>, and one for good once the task has returned. So when all the
  tests have finished, as many permits as there are tests are still held.
\<close>

lemma RunTests_permits_held:
  assumes "run (RunTests_start concurrency ntests) as = Some s"
  shows "sem_cur s = sum_list (map held (tasks s))"
    and "length (tasks s) = ntests"
    and "(\<forall>p\<in>set (tasks s). p = Finished) \<longrightarrow> sem_cur s = int ntests"
proof -
  have start: "sem_cur (RunTests_start concurrency ntests)
      = sum_list (map held (tasks (RunTests_start concurrency ntests)))"
    by (simp add: RunTests_start_def sum_list_replicate)
  from run_held [OF assms start]
  show a: "sem_cur s = sum_list (map held (tasks s))" and b: "length (tasks s) = ntests"
    by (simp_all add: RunTests_start_def)
  show "(\<forall>p\<in>set (tasks s). p = Finished) \<longrightarrow> sem_cur s = int ntests"
    using a b sum_list_held_Finished [of "tasks s"] by auto
qed

text \<open>
  Claim C1 does not hold of the code: a task calls \<open>s.Acquire(ctx, 1)\<close> twice and
  defers one \<open>s.Release(1)\<close>. With a budget of 2 and one test, the task holds both
  permits when it runs the body, and when the test has finished and \<open>RunTests\<close> has
  returned one permit is still held. With a budget of 1 and one test, the task takes the
  only permit and then blocks in its second \<open>Acquire\<close>: neither the task nor the
  waiting loop can take a step, and the body never runs.
\<close>

theorem RunTests_leaks_a_permit:
  "run (RunTests_start 2 1) [Task 0, Task 0]
     = Some \<lparr>sem_size = 2, sem_cur = 2, tasks = [AtRun], bodies_run = 0, done_count = 0,
             ctx_cancelled = False, returned = False\<rparr>
   \<and> run (RunTests_start 2 1) [Task 0, Task 0, Task 0, Task 0, Task 0, Wait]
     = Some \<lparr>sem_size = 2, sem_cur = 1, tasks = [Finished], bodies_run = 1, done_count = 1,
             ctx_cancelled = False, returned = True\<rparr>
   \<and> run (RunTests_start 1 1) [Task 0]
     = Some \<lparr>sem_size = 1, sem_cur = 1, tasks = [AtSecondAcquire], bodies_run = 0, done_count = 0,
             ctx_cancelled = False, returned = False\<rparr>
   \<and> step \<lparr>sem_size = 1, sem_cur = 1, tasks = [AtSecondAcquire], bodies_run = 0, done_count = 0,
            ctx_cancelled = False, returned = False\<rparr> (Task 0) = None
   \<and> step \<lparr>sem_size = 1, sem_cur = 1, tasks = [AtSecondAcquire], bodies_run = 0, done_count = 0,
            ctx_cancelled = False, returned = False\<rparr> Wait = None"
  by (simp add: RunTests_start_def task_step_def wait_step_def)

end
